theory Spec2Isabelle
  imports Complex_Main "HOL-Library.Sublist"
begin

section \<open>Behavioral risk engine (behavior\_analyzer.h / behavior\_analyzer.cpp)\<close>

text \<open>
  The C++ type \<open>double\<close> is modelled by \<open>real\<close>: the claims below concern which
  patterns are counted, which divisor is used and which values are compared, not
  rounding. A \<open>time_point\<close> is a natural number.
\<close>

record BehaviorPattern =
  user :: string
  pattern_type :: string
  confidence_score :: real
  description :: string
  timestamp :: nat

record UserProfile =
  user_id :: string
  baseline_metrics :: "string \<rightharpoonup> real"
  recent_patterns :: "BehaviorPattern list"
  risk_score :: real

text \<open>
  \<open>LLMBehaviorInsight\<close> (llm\_behavior\_analyzer.h). Its fields \<open>user\<close>,
  \<open>confidence_score\<close>, \<open>description\<close> and \<open>timestamp\<close> carry the prefix
  \<open>insight_\<close> here, since \<open>BehaviorPattern\<close> already owns the plain names.
\<close>

record LLMBehaviorInsight =
  insight_user :: string
  insight_type :: string
  severity :: string
  insight_confidence_score :: real
  insight_description :: string
  analysis :: string
  recommendations :: "string list"
  insight_timestamp :: nat

text \<open>
  The analyzer object. \<open>anomaly_callback\<close> tells whether a callback is registered;
  \<open>anomaly_calls\<close> is the list of patterns the callback has been invoked with.
\<close>

record BehaviorAnalyzer =
  user_profiles :: "string \<rightharpoonup> UserProfile"
  pattern_history :: "BehaviorPattern list"
  anomaly_callback :: bool
  anomaly_calls :: "BehaviorPattern list"

definition new_BehaviorAnalyzer :: BehaviorAnalyzer where
  "new_BehaviorAnalyzer =
     \<lparr>user_profiles = Map.empty, pattern_history = [], anomaly_callback = False,
      anomaly_calls = []\<rparr>"

definition setAnomalyCallback :: "BehaviorAnalyzer \<Rightarrow> BehaviorAnalyzer" where
  "setAnomalyCallback st = st\<lparr>anomaly_callback := True\<rparr>"

definition updateUserProfile :: "BehaviorAnalyzer \<Rightarrow> string \<Rightarrow> UserProfile \<Rightarrow> BehaviorAnalyzer" where
  "updateUserProfile st u profile = st\<lparr>user_profiles := (user_profiles st)(u \<mapsto> profile)\<rparr>"

text \<open>
  \<open>isAnomalous\<close>: the loop over the current metrics (an association list with
  distinct keys, standing for the \<open>unordered_map\<close>) accumulates the total
  deviation and the number of metrics compared.
\<close>

fun deviation_loop :: "(string \<times> real) list \<Rightarrow> (string \<rightharpoonup> real) \<Rightarrow> real \<times> int \<Rightarrow> real \<times> int" where
  "deviation_loop [] baseline acc = acc"
| "deviation_loop ((key, current_value) # rest) baseline (total_deviation, metrics_count) =
     (case baseline key of
        None \<Rightarrow> deviation_loop rest baseline (total_deviation, metrics_count)
      | Some baseline_value \<Rightarrow>
          if baseline_value \<noteq> 0
          then deviation_loop rest baseline
                 (total_deviation + \<bar>current_value - baseline_value\<bar> / baseline_value,
                  metrics_count + 1)
          else deviation_loop rest baseline (total_deviation, metrics_count))"

definition isAnomalous :: "(string \<times> real) list \<Rightarrow> (string \<rightharpoonup> real) \<Rightarrow> real \<Rightarrow> bool" where
  "isAnomalous current baseline threshold =
     (if baseline = Map.empty then False
      else (case deviation_loop current baseline (0, 0) of
              (total_deviation, metrics_count) \<Rightarrow>
                if metrics_count = 0 then False
                else total_deviation / real_of_int metrics_count > threshold))"

text \<open>
  \<open>detectAnomalies\<close> evaluates \<open>isAnomalous\<close> and discards the result (the body
  of its \<open>if\<close> is empty), so it leaves the analyzer as it was.
\<close>

definition detectAnomalies :: "BehaviorAnalyzer \<Rightarrow> string \<Rightarrow> (string \<times> real) list \<Rightarrow> BehaviorAnalyzer" where
  "detectAnomalies st u current_metrics =
     (case user_profiles st u of
        None \<Rightarrow> st
      | Some profile \<Rightarrow>
          if isAnomalous current_metrics (baseline_metrics profile) 0.7 then st else st)"

fun ema_loop :: "(string \<times> real) list \<Rightarrow> (string \<rightharpoonup> real) \<Rightarrow> (string \<rightharpoonup> real)" where
  "ema_loop [] baseline = baseline"
| "ema_loop ((key, v) # rest) baseline =
     (case baseline key of
        None \<Rightarrow> ema_loop rest (baseline(key \<mapsto> v))
      | Some b \<Rightarrow> ema_loop rest (baseline(key \<mapsto> 0.1 * v + (1 - 0.1) * b)))"

definition updateBaseline :: "BehaviorAnalyzer \<Rightarrow> string \<Rightarrow> (string \<times> real) list \<Rightarrow> BehaviorAnalyzer" where
  "updateBaseline st u metrics =
     (case user_profiles st u of
        None \<Rightarrow>
          st\<lparr>user_profiles := (user_profiles st)(u \<mapsto>
               \<lparr>user_id = u, baseline_metrics = map_of metrics, recent_patterns = [],
                risk_score = 0\<rparr>)\<rparr>
      | Some profile \<Rightarrow>
          st\<lparr>user_profiles := (user_profiles st)(u \<mapsto>
               profile\<lparr>baseline_metrics := ema_loop metrics (baseline_metrics profile)\<rparr>)\<rparr>)"

text \<open>
  The counting loop of \<open>calculateRiskScore\<close>. The state is
  \<open>(total_recent, suspicious_count, anomalous_count)\<close>. The loop walks
  \<open>recent_patterns\<close> from its first element; \<open>if (++total_recent > 10) break;\<close>
  increments before it tests, so the counter is 11 when the loop breaks.
\<close>

fun count_loop :: "BehaviorPattern list \<Rightarrow> int \<times> int \<times> int \<Rightarrow> int \<times> int \<times> int" where
  "count_loop [] acc = acc"
| "count_loop (pattern # rest) (total_recent, suspicious_count, anomalous_count) =
     (let total_recent' = total_recent + 1 in
      if total_recent' > 10 then (total_recent', suspicious_count, anomalous_count)
      else if pattern_type pattern = ''suspicious''
           then count_loop rest (total_recent', suspicious_count + 1, anomalous_count)
      else if pattern_type pattern = ''anomalous''
           then count_loop rest (total_recent', suspicious_count, anomalous_count + 1)
      else count_loop rest (total_recent', suspicious_count, anomalous_count))"

definition risk_of_patterns :: "BehaviorPattern list \<Rightarrow> real" where
  "risk_of_patterns ps =
     (case count_loop ps (0, 0, 0) of
        (total_recent, suspicious_count, anomalous_count) \<Rightarrow>
          min (if total_recent > 0
               then (real_of_int suspicious_count * 0.8 + real_of_int anomalous_count * 0.4)
                      / real_of_int total_recent
               else 0) 1)"

definition calculateRiskScore :: "BehaviorAnalyzer \<Rightarrow> string \<Rightarrow> real" where
  "calculateRiskScore st u =
     (case user_profiles st u of
        None \<Rightarrow> 0
      | Some profile \<Rightarrow> risk_of_patterns (recent_patterns profile))"

text \<open>
  \<open>pattern_history_.push_back(pattern); if (size > 1000) pop_front();\<close>, the
  same two statements in \<open>analyzeActivity\<close> and in \<open>handleLLMInsight\<close>.
\<close>

definition push_history :: "BehaviorPattern list \<Rightarrow> BehaviorPattern \<Rightarrow> BehaviorPattern list" where
  "push_history h p = (let h' = h @ [p] in if length h' > 1000 then tl h' else h')"

definition fire_anomaly :: "BehaviorAnalyzer \<Rightarrow> BehaviorPattern \<Rightarrow> BehaviorAnalyzer" where
  "fire_anomaly st p =
     (if pattern_type p \<noteq> ''normal'' \<and> anomaly_callback st
      then st\<lparr>anomaly_calls := anomaly_calls st @ [p]\<rparr> else st)"

text \<open>
  \<open>analyzeActivity\<close>. \<open>to_string\<close> stands for \<open>std::to_string(double)\<close> and
  \<open>now\<close> for the clock reading.
\<close>

definition activity_pattern :: "(real \<Rightarrow> string) \<Rightarrow> nat \<Rightarrow> string \<Rightarrow> string \<Rightarrow> real \<Rightarrow> BehaviorPattern" where
  "activity_pattern to_string now u activity_type score =
     (if score > 0.7 then
        \<lparr>user = u, pattern_type = ''suspicious'', confidence_score = score,
         description = ''Suspicious activity detected: '' @ activity_type
            @ '' (confidence: '' @ to_string score @ '')'',
         timestamp = now\<rparr>
      else if score > 0.5 then
        \<lparr>user = u, pattern_type = ''anomalous'', confidence_score = score,
         description = ''Anomalous behavior detected: '' @ activity_type
            @ '' (confidence: '' @ to_string score @ '')'',
         timestamp = now\<rparr>
      else
        \<lparr>user = u, pattern_type = ''normal'', confidence_score = score,
         description = ''Normal activity: '' @ activity_type,
         timestamp = now\<rparr>)"

definition analyzeActivity ::
  "(real \<Rightarrow> string) \<Rightarrow> nat \<Rightarrow> BehaviorAnalyzer \<Rightarrow> string \<Rightarrow> string \<Rightarrow> (string \<times> real) list
     \<Rightarrow> BehaviorAnalyzer" where
  "analyzeActivity to_string now st0 u activity_type metrics =
     (let st1 = detectAnomalies st0 u metrics;
          st2 = updateBaseline st1 u metrics;
          score = calculateRiskScore st2 u;
          pattern = activity_pattern to_string now u activity_type score;
          st3 = st2\<lparr>pattern_history := push_history (pattern_history st2) pattern\<rparr>;
          profile = (case user_profiles st3 u of
                       None \<Rightarrow> \<lparr>user_id = u, baseline_metrics = Map.empty,
                                recent_patterns = [], risk_score = 0\<rparr>
                     | Some p \<Rightarrow> p);
          st4 = st3\<lparr>user_profiles := (user_profiles st3)(u \<mapsto>
                  profile\<lparr>recent_patterns := recent_patterns profile @ [pattern],
                          risk_score := score\<rparr>)\<rparr>
      in fire_anomaly st4 pattern)"

text \<open>\<open>handleLLMInsight\<close>: the mapping of an insight to a pattern, then the stores.\<close>

definition insight_pattern :: "(real \<Rightarrow> string) \<Rightarrow> LLMBehaviorInsight \<Rightarrow> BehaviorPattern" where
  "insight_pattern to_string insight =
     \<lparr>user = insight_user insight,
      pattern_type =
        (if insight_type insight = ''alert'' \<or> severity insight = ''critical''
            \<or> severity insight = ''high'' then ''suspicious''
         else if insight_type insight = ''pattern'' \<or> severity insight = ''medium''
              then ''anomalous''
         else ''normal''),
      confidence_score = insight_confidence_score insight,
      description = ''['' @ insight_type insight @ ''] '' @ insight_description insight
         @ '' (LLM confidence: '' @ to_string (insight_confidence_score insight) @ '')'',
      timestamp = insight_timestamp insight\<rparr>"

definition handleLLMInsight ::
  "(real \<Rightarrow> string) \<Rightarrow> BehaviorAnalyzer \<Rightarrow> LLMBehaviorInsight \<Rightarrow> BehaviorAnalyzer" where
  "handleLLMInsight to_string st0 insight =
     (let pattern = insight_pattern to_string insight;
          st1 = st0\<lparr>pattern_history := push_history (pattern_history st0) pattern\<rparr>;
          st2 = (case user_profiles st1 (insight_user insight) of
                   None \<Rightarrow> st1
                 | Some profile \<Rightarrow>
                     st1\<lparr>user_profiles := (user_profiles st1)(insight_user insight \<mapsto>
                       profile\<lparr>recent_patterns := recent_patterns profile @ [pattern],
                               risk_score := max (risk_score profile)
                                               (insight_confidence_score insight)\<rparr>)\<rparr>)
      in fire_anomaly st2 pattern)"

text \<open>A run of the engine: any sequence of the two entry points.\<close>

datatype analyzer_call =
    Activity nat string string "(string \<times> real) list"
  | Insight LLMBehaviorInsight

fun run_call :: "(real \<Rightarrow> string) \<Rightarrow> BehaviorAnalyzer \<Rightarrow> analyzer_call \<Rightarrow> BehaviorAnalyzer" where
  "run_call to_string st (Activity now u activity_type metrics) =
     analyzeActivity to_string now st u activity_type metrics"
| "run_call to_string st (Insight insight) = handleLLMInsight to_string st insight"

definition run_calls :: "(real \<Rightarrow> string) \<Rightarrow> BehaviorAnalyzer \<Rightarrow> analyzer_call list \<Rightarrow> BehaviorAnalyzer" where
  "run_calls to_string st calls = foldl (run_call to_string) st calls"


section \<open>JSON values (the nlohmann::json library, as the agent uses it)\<close>

text \<open>
  The library is not part of the repository. Its values are modelled as a datatype
  and its text parser is a parameter \<open>json_parse\<close> of the functions that call
  \<open>json::parse\<close>: \<open>Inl w\<close> is a \<open>parse_error\<close> whose \<open>what()\<close> is \<open>w\<close>,
  \<open>Inr j\<close> the parsed value. An object is its list of members in the order in which
  the library iterates them (by key, keys distinct).
\<close>

datatype json =
    JNull
  | JBool bool
  | JInt int
  | JFloat real
  | JString string
  | JArray "json list"
  | JObject "(string \<times> json) list"

datatype json_exception =
    parse_error string
  | type_error string
  | other_exception string

fun what :: "json_exception \<Rightarrow> string" where
  "what (parse_error w) = w"
| "what (type_error w) = w"
| "what (other_exception w) = w"

text \<open>A C++ \<open>int\<close> is 32 bits wide: conversion of a wider integer wraps.\<close>

definition to_int32 :: "int \<Rightarrow> int" where
  "to_int32 n = (n + 2 ^ 31) mod 2 ^ 32 - 2 ^ 31"

definition truncate_real :: "real \<Rightarrow> int" where
  "truncate_real r = (if 0 \<le> r then \<lfloor>r\<rfloor> else \<lceil>r\<rceil>)"

text \<open>
  \<open>get<T>()\<close> and the implicit conversions: a string only from a string; a number
  from an integer, a float or a boolean; anything else throws \<open>type_error\<close> 302.
\<close>

fun json_get_string :: "json \<Rightarrow> json_exception + string" where
  "json_get_string (JString s) = Inr s"
| "json_get_string _ = Inl (type_error ''302: type must be string'')"

fun json_get_double :: "json \<Rightarrow> json_exception + real" where
  "json_get_double (JInt n) = Inr (real_of_int n)"
| "json_get_double (JFloat r) = Inr r"
| "json_get_double (JBool b) = Inr (if b then 1 else 0)"
| "json_get_double _ = Inl (type_error ''302: type must be number'')"

fun json_get_int :: "json \<Rightarrow> json_exception + int" where
  "json_get_int (JInt n) = Inr (to_int32 n)"
| "json_get_int (JFloat r) = Inr (to_int32 (truncate_real r))"
| "json_get_int (JBool b) = Inr (if b then 1 else 0)"
| "json_get_int _ = Inl (type_error ''302: type must be number'')"

text \<open>
  \<open>j.value(key, default)\<close>: on an object the member converted to the type of the
  default, or the default when the key is absent; on anything else \<open>type_error\<close> 306.
\<close>

fun json_value :: "(json \<Rightarrow> json_exception + 'a) \<Rightarrow> json \<Rightarrow> string \<Rightarrow> 'a \<Rightarrow> json_exception + 'a" where
  "json_value conv (JObject members) key default_value =
     (case map_of members key of
        None \<Rightarrow> Inr default_value
      | Some v \<Rightarrow> conv v)"
| "json_value conv _ key default_value = Inl (type_error ''306: cannot use value()'')"

fun json_contains :: "json \<Rightarrow> string \<Rightarrow> bool" where
  "json_contains (JObject members) key = (map_of members key \<noteq> None)"
| "json_contains _ key = False"

text \<open>
  \<open>j[key]\<close> on a non-const value: a member of an object (\<open>null\<close> when the key is
  absent), \<open>null\<close> on \<open>null\<close>, and \<open>type_error\<close> 305 on anything else. The library
  also inserts the absent key; no later read in the agent observes that.
\<close>

fun json_index :: "json \<Rightarrow> string \<Rightarrow> json_exception + json" where
  "json_index (JObject members) key =
     (case map_of members key of None \<Rightarrow> Inr JNull | Some v \<Rightarrow> Inr v)"
| "json_index JNull key = Inr JNull"
| "json_index _ key = Inl (type_error ''305: cannot use operator[] with a string argument'')"

text \<open>
  The range-based \<open>for\<close> over a value: the elements of an array, the member values of
  an object, nothing for \<open>null\<close>, and the value itself once for a primitive.
\<close>

fun json_items :: "json \<Rightarrow> json list" where
  "json_items (JArray xs) = xs"
| "json_items (JObject members) = map snd members"
| "json_items JNull = []"
| "json_items j = [j]"

section \<open>LLM insight pipeline: \<open>parseLLMResponse\<close> (llm\_behavior\_analyzer.cpp)\<close>

text \<open>
  The loop \<open>for (pattern : response_json["patterns"]) description += pattern.get<string>() + ", "\<close>:
  \<open>Inl\<close>, with the description built so far, when an element is not a string.
\<close>

fun append_patterns :: "json list \<Rightarrow> string \<Rightarrow> (json_exception \<times> string) + string" where
  "append_patterns [] d = Inr d"
| "append_patterns (p # ps) d =
     (case json_get_string p of
        Inl e \<Rightarrow> Inl (e, d)
      | Inr s \<Rightarrow> append_patterns ps (d @ s @ '', ''))"

text \<open>
  The loop that pushes the recommendations: an element that is not a string throws
  after the ones before it have been pushed, so the list built so far comes back
  with the exception.
\<close>

fun push_recommendations :: "json list \<Rightarrow> string list \<Rightarrow> (json_exception \<times> string list) + string list" where
  "push_recommendations [] recs = Inr recs"
| "push_recommendations (r # rs) recs =
     (case json_get_string r of
        Inl e \<Rightarrow> Inl (e, recs)
      | Inr s \<Rightarrow> push_recommendations rs (recs @ [s]))"

text \<open>
  The body of the \<open>try\<close> block: \<open>Inr\<close> the insight when the block runs to its end,
  \<open>Inl\<close> the insight as it stands when an exception leaves the block.
\<close>

definition parse_try ::
  "(string \<Rightarrow> string + json) \<Rightarrow> string \<Rightarrow> LLMBehaviorInsight
     \<Rightarrow> LLMBehaviorInsight + LLMBehaviorInsight" where
  "parse_try json_parse response insight0 =
     (case json_parse response of
        Inl w \<Rightarrow> Inl insight0
      | Inr response_json \<Rightarrow>
     (case json_value json_get_string response_json ''risk_level'' ''medium'' of
        Inl e \<Rightarrow> Inl insight0
      | Inr sev \<Rightarrow> let insight1 = insight0\<lparr>severity := sev\<rparr> in
     (case json_value json_get_double response_json ''confidence_score'' 0.5 of
        Inl e \<Rightarrow> Inl insight1
      | Inr conf \<Rightarrow> let insight2 = insight1\<lparr>insight_confidence_score := conf\<rparr> in
     (case json_value json_get_string response_json ''analysis'' ''Analysis completed'' of
        Inl e \<Rightarrow> Inl insight2
      | Inr an \<Rightarrow> let insight3 = insight2\<lparr>analysis := an\<rparr> in
     (case (if json_contains response_json ''patterns''
            then (case json_index response_json ''patterns'' of
                    Inl e \<Rightarrow> Inl insight3
                  | Inr ps \<Rightarrow>
                      (case append_patterns (json_items ps) ''Detected patterns: '' of
                         Inl (e, d) \<Rightarrow> Inl (insight3\<lparr>insight_description := d\<rparr>)
                       | Inr d \<Rightarrow> Inr (insight3\<lparr>insight_description := take (length d - 2) d\<rparr>)))
            else Inr insight3) of
        Inl i \<Rightarrow> Inl i
      | Inr insight4 \<Rightarrow>
     (case (if json_contains response_json ''recommendations''
            then (case json_index response_json ''recommendations'' of
                    Inl e \<Rightarrow> Inl insight4
                  | Inr rs \<Rightarrow>
                      (case push_recommendations (json_items rs) (recommendations insight4) of
                         Inl (e, recs) \<Rightarrow> Inl (insight4\<lparr>recommendations := recs\<rparr>)
                       | Inr recs \<Rightarrow> Inr (insight4\<lparr>recommendations := recs\<rparr>)))
            else Inr insight4) of
        Inl i \<Rightarrow> Inl i
      | Inr insight5 \<Rightarrow>
          Inr (insight5\<lparr>insight_type :=
                 (if severity insight5 = ''critical'' \<or> severity insight5 = ''high''
                  then ''alert''
                  else if recommendations insight5 \<noteq> [] then ''recommendation''
                  else ''pattern'')\<rparr>)))))))"

text \<open>
  \<open>parseLLMResponse\<close>. Every exception the \<open>try\<close> block can raise derives from
  \<open>std::exception\<close>, so the handler catches it and the function always returns an
  insight. The default-constructed insight has empty strings; its confidence is
  written before the function returns on every path.
\<close>

definition empty_insight :: "string \<Rightarrow> nat \<Rightarrow> LLMBehaviorInsight" where
  "empty_insight uid now =
     \<lparr>insight_user = uid, insight_type = [], severity = [],
      insight_confidence_score = 0, insight_description = [], analysis = [],
      recommendations = [], insight_timestamp = now\<rparr>"

definition parseLLMResponse ::
  "(string \<Rightarrow> string + json) \<Rightarrow> nat \<Rightarrow> string \<Rightarrow> string \<Rightarrow> LLMBehaviorInsight" where
  "parseLLMResponse json_parse now response uid =
     (case parse_try json_parse response (empty_insight uid now) of
        Inr insight \<Rightarrow> insight
      | Inl insight \<Rightarrow>
          insight\<lparr>severity := ''medium'',
                  insight_confidence_score := 0.5,
                  analysis := response,
                  insight_description := ''LLM analysis completed'',
                  insight_type := ''pattern''\<rparr>)"


section \<open>Self-upgrade subsystem (upgrade\_manager.h / upgrade\_manager.cpp)\<close>

subsection \<open>Versions and update descriptors\<close>

record VersionInfo =
  major :: int
  minor :: int
  patch :: int
  build :: string
  release_date :: string

text \<open>\<open>std::to_string(int)\<close>: the decimal digits, with a minus sign when negative.\<close>

fun nat_to_string :: "nat \<Rightarrow> string" where
  "nat_to_string n =
     (if n < 10 then [''0123456789'' ! n]
      else nat_to_string (n div 10) @ [''0123456789'' ! (n mod 10)])"

declare nat_to_string.simps [simp del]

definition int_to_string :: "int \<Rightarrow> string" where
  "int_to_string i = (if i < 0 then CHR ''-'' # nat_to_string (nat (- i)) else nat_to_string (nat i))"

definition toString :: "VersionInfo \<Rightarrow> string" where
  "toString v =
     int_to_string (major v) @ ''.'' @ int_to_string (minor v) @ ''.'' @ int_to_string (patch v)
       @ (if build v = [] then [] else ''-'' @ build v)"

definition version_less :: "VersionInfo \<Rightarrow> VersionInfo \<Rightarrow> bool" where
  "version_less a b =
     (if major a \<noteq> major b then major a < major b
      else if minor a \<noteq> minor b then minor a < minor b
      else patch a < patch b)"

definition version_greater :: "VersionInfo \<Rightarrow> VersionInfo \<Rightarrow> bool" where
  "version_greater a b = version_less b a"

definition CURRENT_VERSION :: VersionInfo where
  "CURRENT_VERSION = \<lparr>major = 1, minor = 0, patch = 0, build = ''dev'', release_date = ''2025-01-06''\<rparr>"

record UpdateInfo =
  version :: VersionInfo
  download_url :: string
  checksum :: string
  release_notes :: string
  file_size :: nat
  signature :: string

datatype UpgradeStatus =
  IDLE | CHECKING | DOWNLOADING | VERIFYING | INSTALLING | SUCCESS | FAILED | ROLLBACK

subsection \<open>The manager, the disk and the outside world\<close>

text \<open>
  A file system is a map from paths to file contents. The manager's record holds the
  members of the class that the modelled functions read or write, the file system
  \<open>disk\<close> the process works on, and three histories: \<open>status_log\<close>, every call of
  \<open>updateStatus\<close> in order; \<open>status_calls\<close>, the invocations of the registered
  status callback; \<open>update_available_calls\<close>, the invocations of the registered
  update-available callback. The two \<open>_callback\<close> fields tell whether the
  \<open>std::function\<close> is set.
\<close>

type_synonym filesystem = "string \<rightharpoonup> string"

record UpgradeManager =
  status :: UpgradeStatus
  status_message :: string
  current_version :: VersionInfo
  available_update :: UpdateInfo
  update_available :: bool
  backup_enabled :: bool
  update_server_url :: string
  temp_directory :: string
  backup_directory :: string
  last_network_error :: string
  update_available_callback :: bool
  status_callback :: bool
  disk :: filesystem
  status_log :: "(UpgradeStatus \<times> string) list"
  status_calls :: "(UpgradeStatus \<times> string) list"
  update_available_calls :: "UpdateInfo list"

text \<open>
  What a call meets outside the process. \<open>http_get url\<close> is the outcome of
  \<open>curl_easy_perform\<close> for that URL; \<open>sha256\<close> is OpenSSL's digest (32 bytes);
  \<open>readlink_exe\<close> is \<open>readlink("/proc/self/exe")\<close>; \<open>os_refuses_copy\<close> and
  \<open>os_refuses_chmod\<close> say when \<open>fs::copy\<close> and \<open>fs::permissions\<close> throw for a
  reason the map of files does not show; \<open>tar_xzf\<close> is the exit status and the
  effect of the \<open>tar\<close> command; \<open>directory_entries\<close> lists what
  \<open>recursive_directory_iterator\<close> yields, each entry with its \<open>is_regular_file\<close>,
  or \<open>None\<close> when the iterator cannot be built.
\<close>

datatype CURLcode =
    CURLE_COULDNT_RESOLVE_HOST
  | CURLE_COULDNT_CONNECT
  | CURLE_OPERATION_TIMEDOUT
  | CURLE_SSL_CONNECT_ERROR
  | CURLE_HTTP_RETURNED_ERROR int
  | CURLE_other string

datatype curl_result = CURLE_OK string | CURLE_failed CURLcode

record upgrade_env =
  curl_init_ok :: bool
  fopen_ok :: "string \<Rightarrow> bool"
  http_get :: "string \<Rightarrow> curl_result"
  json_parser :: "string \<Rightarrow> string + json"
  sha256 :: "string \<Rightarrow> string"
  readlink_exe :: "string option"
  os_refuses_copy :: "string \<Rightarrow> string \<Rightarrow> bool"
  os_refuses_chmod :: "string \<Rightarrow> bool"
  tar_xzf :: "filesystem \<Rightarrow> string \<Rightarrow> string \<Rightarrow> int \<times> filesystem"
  directory_entries :: "filesystem \<Rightarrow> string \<Rightarrow> (string \<times> bool) list option"

text \<open>
  The constructor. It does not initialise \<open>available_update_\<close>: the strings of that
  member are empty and its numbers (the three parts of the version and the file
  size) are whatever the memory holds, here the arguments \<open>mj\<close>, \<open>mn\<close>, \<open>pt\<close>
  and \<open>fsz\<close>.
\<close>

definition new_UpgradeManager :: "filesystem \<Rightarrow> int \<Rightarrow> int \<Rightarrow> int \<Rightarrow> nat \<Rightarrow> UpgradeManager" where
  "new_UpgradeManager d mj mn pt fsz =
     \<lparr>status = IDLE, status_message = [], current_version = CURRENT_VERSION,
      available_update =
        \<lparr>version = \<lparr>major = mj, minor = mn, patch = pt, build = [], release_date = []\<rparr>,
         download_url = [], checksum = [], release_notes = [], file_size = fsz,
         signature = []\<rparr>,
      update_available = False, backup_enabled = True,
      update_server_url = ''http://localhost:5000'',
      temp_directory = ''/tmp/workforce_agent_updates'',
      backup_directory = ''$HOME/.workforce_agent/backups'',
      last_network_error = [],
      update_available_callback = False, status_callback = False,
      disk = d, status_log = [], status_calls = [], update_available_calls = []\<rparr>"

definition setUpdateAvailableCallback :: "UpgradeManager \<Rightarrow> UpgradeManager" where
  "setUpdateAvailableCallback st = st\<lparr>update_available_callback := True\<rparr>"

definition setStatusCallback :: "UpgradeManager \<Rightarrow> UpgradeManager" where
  "setStatusCallback st = st\<lparr>status_callback := True\<rparr>"

definition setBackupEnabled :: "UpgradeManager \<Rightarrow> bool \<Rightarrow> UpgradeManager" where
  "setBackupEnabled st enabled = st\<lparr>backup_enabled := enabled\<rparr>"

definition updateStatus :: "UpgradeManager \<Rightarrow> UpgradeStatus \<Rightarrow> string \<Rightarrow> UpgradeManager" where
  "updateStatus st s message =
     st\<lparr>status := s, status_message := message,
        status_log := status_log st @ [(s, message)],
        status_calls := (if status_callback st then status_calls st @ [(s, message)]
                         else status_calls st)\<rparr>"

subsection \<open>Network operations\<close>

fun network_error_text :: "CURLcode \<Rightarrow> string" where
  "network_error_text CURLE_COULDNT_RESOLVE_HOST =
     ''Could not resolve hostname - check network connection and DNS''"
| "network_error_text CURLE_COULDNT_CONNECT =
     ''Could not connect to server - backend may not be running''"
| "network_error_text CURLE_OPERATION_TIMEDOUT =
     ''Connection timed out - server may be unresponsive''"
| "network_error_text CURLE_SSL_CONNECT_ERROR =
     ''SSL connection failed - certificate or TLS issue''"
| "network_error_text (CURLE_HTTP_RETURNED_ERROR response_code) =
     ''HTTP error '' @ int_to_string response_code @ '' - endpoint may not exist''"
| "network_error_text (CURLE_other strerror) = strerror"

text \<open>
  \<open>fopen(path, "wb")\<close> creates the file or truncates it to length zero; a device such
  as \<open>/dev/null\<close> is opened and stays what it is.
\<close>

definition fopen_wb :: "filesystem \<Rightarrow> string \<Rightarrow> filesystem" where
  "fopen_wb d path = (if path = ''/dev/null'' then d else d(path \<mapsto> []))"

text \<open>
  \<open>downloadFile\<close>. The write callback appends every received block to the string
  \<open>response\<close> (\<open>CURLOPT_WRITEDATA\<close> is \<open>&response\<close>); the stream \<open>fp\<close> is opened
  and closed and nothing is written to it. The progress callback only reports and
  is left out.
\<close>

definition downloadFile :: "upgrade_env \<Rightarrow> UpgradeManager \<Rightarrow> string \<Rightarrow> string \<Rightarrow> string \<times> UpgradeManager" where
  "downloadFile env st url output_path =
     (if \<not> curl_init_ok env then ([], st)
      else if \<not> fopen_ok env output_path then ([], st)
      else
        let st1 = st\<lparr>disk := fopen_wb (disk st) output_path\<rparr> in
        (case http_get env url of
           CURLE_OK response \<Rightarrow> (response, st1)
         | CURLE_failed res \<Rightarrow>
             ([], st1\<lparr>last_network_error := ''Network error: '' @ network_error_text res\<rparr>)))"

definition getLatestVersionInfo :: "upgrade_env \<Rightarrow> UpgradeManager \<Rightarrow> string \<times> UpgradeManager" where
  "getLatestVersionInfo env st = downloadFile env st (update_server_url st @ ''/latest'') ''/dev/null''"

subsection \<open>Checksum and signature\<close>

text \<open>
  \<open>calculateChecksum\<close>. \<open>while (file.read(buffer, 8192)) SHA256_Update(...)\<close>: a read
  that meets the end of the file before 8192 bytes sets the fail bit, so the loop body
  runs for the full blocks only and the bytes after the last full block are never
  hashed. The digest is printed as 64 lower-case hexadecimal digits.
\<close>

fun full_blocks :: "string \<Rightarrow> string list" where
  "full_blocks content =
     (if 8192 \<le> length content then take 8192 content # full_blocks (drop 8192 content)
      else [])"

declare full_blocks.simps [simp del]

definition hex_byte :: "char \<Rightarrow> string" where
  "hex_byte c =
     [''0123456789abcdef'' ! (of_char c div 16), ''0123456789abcdef'' ! (of_char c mod 16)]"

definition sha256_hex :: "upgrade_env \<Rightarrow> string \<Rightarrow> string" where
  "sha256_hex env data = concat (map hex_byte (sha256 env data))"

definition calculateChecksum :: "upgrade_env \<Rightarrow> filesystem \<Rightarrow> string \<Rightarrow> string" where
  "calculateChecksum env d file_path =
     (case d file_path of
        None \<Rightarrow> []
      | Some content \<Rightarrow> sha256_hex env (concat (full_blocks content)))"

definition verifyUpdateFile :: "upgrade_env \<Rightarrow> filesystem \<Rightarrow> string \<Rightarrow> string \<Rightarrow> bool" where
  "verifyUpdateFile env d file_path expected_checksum =
     (calculateChecksum env d file_path = expected_checksum)"

definition validateUpdateSignature :: "filesystem \<Rightarrow> string \<Rightarrow> string \<Rightarrow> bool" where
  "validateUpdateSignature d file_path sig = (sig \<noteq> [])"

definition fs_remove :: "filesystem \<Rightarrow> string \<Rightarrow> filesystem" where
  "fs_remove d path = d(path := None)"

subsection \<open>\<open>downloadUpdate\<close>\<close>

definition download_path_of :: "UpgradeManager \<Rightarrow> VersionInfo \<Rightarrow> string" where
  "download_path_of st v = temp_directory st @ ''/update_'' @ toString v @ ''.tar.gz''"

definition downloadUpdate :: "upgrade_env \<Rightarrow> UpgradeManager \<Rightarrow> UpdateInfo \<Rightarrow> bool \<times> UpgradeManager" where
  "downloadUpdate env st0 update =
     (let st1 = updateStatus st0 DOWNLOADING ''Downloading update...'';
          download_path = download_path_of st1 (version update);
          (result, st2) = downloadFile env st1 (download_url update) download_path
      in if result = [] then (False, updateStatus st2 FAILED ''Download failed'')
         else if \<not> verifyUpdateFile env (disk st2) download_path (checksum update) then
           (let st3 = updateStatus st2 FAILED ''Checksum verification failed''
            in (False, st3\<lparr>disk := fs_remove (disk st3) download_path\<rparr>))
         else if signature update \<noteq> []
                 \<and> \<not> validateUpdateSignature (disk st2) download_path (signature update) then
           (let st3 = updateStatus st2 FAILED ''Signature verification failed''
            in (False, st3\<lparr>disk := fs_remove (disk st3) download_path\<rparr>))
         else (True, updateStatus st2 IDLE ''Update downloaded and verified''))"


subsection \<open>\<open>checkForUpdates\<close>\<close>

definition json_member_int :: "json \<Rightarrow> string \<Rightarrow> json_exception + int" where
  "json_member_int j key = (case json_index j key of Inl e \<Rightarrow> Inl e | Inr v \<Rightarrow> json_get_int v)"

definition json_member_string :: "json \<Rightarrow> string \<Rightarrow> json_exception + string" where
  "json_member_string j key = (case json_index j key of Inl e \<Rightarrow> Inl e | Inr v \<Rightarrow> json_get_string v)"

text \<open>The initialiser of \<open>latest_version\<close>, its five members read from left to right.\<close>

definition read_version :: "json \<Rightarrow> json_exception + VersionInfo" where
  "read_version version_json =
     (case json_member_int version_json ''major'' of Inl e \<Rightarrow> Inl e | Inr mj \<Rightarrow>
     (case json_member_int version_json ''minor'' of Inl e \<Rightarrow> Inl e | Inr mn \<Rightarrow>
     (case json_member_int version_json ''patch'' of Inl e \<Rightarrow> Inl e | Inr pt \<Rightarrow>
     (case json_value json_get_string version_json ''build'' [] of Inl e \<Rightarrow> Inl e | Inr b \<Rightarrow>
     (case json_value json_get_string version_json ''release_date'' [] of Inl e \<Rightarrow> Inl e | Inr rd \<Rightarrow>
        Inr \<lparr>major = mj, minor = mn, patch = pt, build = b, release_date = rd\<rparr>)))))"

text \<open>
  The assignments to \<open>available_update_\<close>, one member after the other: an exception
  leaves the members assigned before it as they are. \<open>file_size\<close> is read as an
  \<open>int\<close> and stored in a \<open>size_t\<close> (64 bits).
\<close>

definition store_update ::
  "json \<Rightarrow> VersionInfo \<Rightarrow> UpgradeManager \<Rightarrow> (json_exception \<times> UpgradeManager) + UpgradeManager" where
  "store_update version_json latest st0 =
     (let st1 = st0\<lparr>available_update := (available_update st0)\<lparr>version := latest\<rparr>\<rparr> in
      case json_member_string version_json ''download_url'' of Inl e \<Rightarrow> Inl (e, st1) | Inr url \<Rightarrow>
     (let st2 = st1\<lparr>available_update := (available_update st1)\<lparr>download_url := url\<rparr>\<rparr> in
      case json_member_string version_json ''checksum'' of Inl e \<Rightarrow> Inl (e, st2) | Inr cs \<Rightarrow>
     (let st3 = st2\<lparr>available_update := (available_update st2)\<lparr>checksum := cs\<rparr>\<rparr> in
      case json_value json_get_string version_json ''release_notes'' [] of Inl e \<Rightarrow> Inl (e, st3) | Inr rn \<Rightarrow>
     (let st4 = st3\<lparr>available_update := (available_update st3)\<lparr>release_notes := rn\<rparr>\<rparr> in
      case json_value json_get_int version_json ''file_size'' 0 of Inl e \<Rightarrow> Inl (e, st4) | Inr fsz \<Rightarrow>
     (let st5 = st4\<lparr>available_update := (available_update st4)\<lparr>file_size := nat (fsz mod 2 ^ 64)\<rparr>\<rparr> in
      case json_value json_get_string version_json ''signature'' [] of Inl e \<Rightarrow> Inl (e, st5) | Inr sg \<Rightarrow>
        Inr (st5\<lparr>available_update := (available_update st5)\<lparr>signature := sg\<rparr>\<rparr>))))))"

definition fire_update_available :: "UpgradeManager \<Rightarrow> UpgradeManager" where
  "fire_update_available st =
     (if update_available_callback st
      then st\<lparr>update_available_calls := update_available_calls st @ [available_update st]\<rparr>
      else st)"

text \<open>
  The statements of the \<open>try\<close> block after the response has been fetched: \<open>Inr\<close> the
  returned value, \<open>Inl\<close> the exception that leaves the block; both with the manager
  as it stands.
\<close>

definition check_version_info ::
  "upgrade_env \<Rightarrow> UpgradeManager \<Rightarrow> string
     \<Rightarrow> (json_exception \<times> UpgradeManager) + (bool \<times> UpgradeManager)" where
  "check_version_info env st version_info =
     (case json_parser env version_info of
        Inl w \<Rightarrow> Inl (parse_error w, st)
      | Inr version_json \<Rightarrow>
     (case read_version version_json of
        Inl e \<Rightarrow> Inl (e, st)
      | Inr latest_version \<Rightarrow>
          if version_greater latest_version (current_version st) then
            (case store_update version_json latest_version st of
               Inl x \<Rightarrow> Inl x
             | Inr st1 \<Rightarrow>
                 let st2 = updateStatus (st1\<lparr>update_available := True\<rparr>) IDLE
                             (''Update available: '' @ toString latest_version)
                 in Inr (True, fire_update_available st2))
          else
            Inr (False,
                 updateStatus st IDLE
                   (''No updates available - current version '' @ toString (current_version st)
                      @ '' is up to date''))))"

fun catch_message :: "json_exception \<Rightarrow> string" where
  "catch_message (parse_error w) =
     ''Failed to parse version information from backend - invalid JSON response: '' @ w"
| "catch_message (type_error w) =
     ''Failed to parse version information from backend - missing required fields: '' @ w"
| "catch_message (other_exception w) = ''Error checking for updates: '' @ w"

definition checkForUpdates :: "upgrade_env \<Rightarrow> UpgradeManager \<Rightarrow> bool \<times> UpgradeManager" where
  "checkForUpdates env st0 =
     (let st1 = updateStatus st0 CHECKING ''Checking for updates...'';
          (version_info, st2) = getLatestVersionInfo env st1
      in if version_info = [] then
           (False,
            updateStatus st2 FAILED
              ''Failed to retrieve version information - backend server may not be running or network connection failed'')
         else
           (case check_version_info env st2 version_info of
              Inr r \<Rightarrow> r
            | Inl (e, st3) \<Rightarrow> (False, updateStatus st3 FAILED (catch_message e))))"

text \<open>
  A sequence of invocations, manual or by \<open>autoUpdateCheckLoop\<close>, each meeting its own
  environment. The loop calls \<open>checkForUpdates\<close> once per iteration for as long as
  \<open>auto_update_running_\<close> is set; the list holds one environment for each iteration
  that runs before another thread clears the flag.
\<close>

fun check_repeatedly :: "upgrade_env list \<Rightarrow> UpgradeManager \<Rightarrow> bool list \<times> UpgradeManager" where
  "check_repeatedly [] st = ([], st)"
| "check_repeatedly (env # envs) st =
     (let (r, st1) = checkForUpdates env st;
          (rs, st2) = check_repeatedly envs st1
      in (r # rs, st2))"

definition autoUpdateCheckLoop :: "upgrade_env list \<Rightarrow> UpgradeManager \<Rightarrow> UpgradeManager" where
  "autoUpdateCheckLoop envs st = snd (check_repeatedly envs st)"


subsection \<open>Backup, extraction, replacement, rollback and \<open>installUpdate\<close>\<close>








text \<open>
  The search for the new executable: the first entry that is a regular file whose
  last path component is \<open>workforce_agent\<close>; the empty string when there is none.
\<close>

definition path_filename :: "string \<Rightarrow> string" where
  "path_filename p = rev (takeWhile (\<lambda>c. c \<noteq> CHR ''/'') (rev p))"





section \<open>DLP detection engine (dlp\_monitor.h / dlp\_monitor.cpp)\<close>

subsection \<open>Strings\<close>

text \<open>
  \<open>haystack.find(needle)\<close> of \<open>std::string\<close>: the first position at which the needle
  occurs, \<open>None\<close> for \<open>npos\<close>. The empty needle occurs at position 0.
\<close>

fun string_find :: "string \<Rightarrow> string \<Rightarrow> nat option" where
  "string_find [] needle = (if needle = [] then Some 0 else None)"
| "string_find (c # cs) needle =
     (if prefix needle (c # cs) then Some 0 else map_option Suc (string_find cs needle))"

text \<open>\<open>::tolower\<close> in the C locale: the 26 upper-case letters change, nothing else.\<close>

definition tolower :: "char \<Rightarrow> char" where
  "tolower c =
     (case map_of (zip ''ABCDEFGHIJKLMNOPQRSTUVWXYZ'' ''abcdefghijklmnopqrstuvwxyz'') c of
        None \<Rightarrow> c
      | Some l \<Rightarrow> l)"

definition isspace :: "char \<Rightarrow> bool" where
  "isspace c = (of_char c \<in> {32, 9, 10, 11, 12, 13::nat})"

text \<open>
  \<open>std::stoi(str, nullptr, base)\<close> for base 10 or 16: leading white space, an optional
  sign, for base 16 an optional \<open>0x\<close> in front of a digit, then the longest run of
  digits. No digit raises \<open>invalid_argument\<close>, a value outside \<open>int\<close> raises
  \<open>out_of_range\<close>.
\<close>

datatype stoi_result = Value int | invalid_argument | out_of_range

definition digit_value :: "nat \<Rightarrow> char \<Rightarrow> nat option" where
  "digit_value base c =
     (let n = of_char c;
          v = (if (48::nat) \<le> n \<and> n \<le> 57 then Some (n - 48)
               else if 97 \<le> n \<and> n \<le> 122 then Some (n - 87)
               else if 65 \<le> n \<and> n \<le> 90 then Some (n - 55)
               else None)
      in case v of None \<Rightarrow> None | Some d \<Rightarrow> if d < base then Some d else None)"

definition digits_value :: "nat \<Rightarrow> string \<Rightarrow> nat" where
  "digits_value base ds = foldl (\<lambda>a c. a * base + the (digit_value base c)) 0 ds"

definition stoi :: "nat \<Rightarrow> string \<Rightarrow> stoi_result" where
  "stoi base str =
     (let s1 = dropWhile isspace str;
          negative = (case s1 of [] \<Rightarrow> False | c # r \<Rightarrow> c = CHR ''-'');
          s2 = (case s1 of [] \<Rightarrow> []
                | c # r \<Rightarrow> if c = CHR ''-'' \<or> c = CHR ''+'' then r else s1);
          s3 = (case s2 of
                  z # x # h # r \<Rightarrow>
                    if base = 16 \<and> z = CHR ''0'' \<and> (x = CHR ''x'' \<or> x = CHR ''X'')
                       \<and> digit_value base h \<noteq> None
                    then h # r else s2
                | _ \<Rightarrow> s2);
          ds = takeWhile (\<lambda>c. digit_value base c \<noteq> None) s3
      in if ds = [] then invalid_argument
         else (let v = (if negative then - int (digits_value base ds)
                        else int (digits_value base ds))
               in if v < - (2 ^ 31) \<or> 2 ^ 31 - 1 < v then out_of_range else Value v))"

subsection \<open>Policies, events and the monitor\<close>

text \<open>
  A compiled \<open>std::regex\<close> is modelled by what \<open>std::regex_search(content, pattern)\<close>
  does with it: it matches, it does not match, or it throws \<open>regex_error\<close>.
\<close>

datatype regex_result = Matched | NotMatched | RegexError

type_synonym regex = "string \<Rightarrow> regex_result"

record DLPPolicy =
  name :: string
  file_extensions :: "string list"
  content_patterns :: "regex list"
  restricted_paths :: "string list"
  block_transfer :: bool

text \<open>
  \<open>DLPEvent\<close>; its members \<open>timestamp\<close>, \<open>type\<close> and \<open>user\<close> carry the prefix
  \<open>event_\<close> here.
\<close>

record DLPEvent =
  event_timestamp :: string
  event_type :: string
  file_path :: string
  destination :: string
  event_user :: string
  policy_violated :: string
  blocked :: bool

text \<open>
  The monitor: its policies, whether a callback is registered, and the events the
  callback has been invoked with, in order.
\<close>

record DLPMonitor =
  policies :: "DLPPolicy list"
  monitored_paths :: "string set"
  callback :: bool
  emitted :: "DLPEvent list"

text \<open>
  What the monitor meets outside the process: the files it can open with their
  contents, the formatted local time, the first output line of \<open>pgrep -x cmd\<close> and of
  \<open>ps -p pid\<close> (\<open>None\<close> when \<open>popen\<close> fails or there is no output), the chunks
  \<open>fgets\<close> reads from the \<open>ss\<close> pipeline, and the lines of \<open>/proc/net/tcp\<close>.
\<close>

record dlp_env =
  readable_files :: "string \<rightharpoonup> string"
  local_time :: string
  pgrep_first_line :: "string \<Rightarrow> string option"
  ps_first_line :: "string \<Rightarrow> string option"
  ss_output :: "string list option"
  proc_net_tcp :: "string list option"

definition new_DLPMonitor :: DLPMonitor where
  "new_DLPMonitor = \<lparr>policies = [], monitored_paths = {}, callback = False, emitted = []\<rparr>"

definition addPolicy :: "DLPMonitor \<Rightarrow> DLPPolicy \<Rightarrow> DLPMonitor" where
  "addPolicy st policy =
     st\<lparr>policies := policies st @ [policy],
        monitored_paths := monitored_paths st \<union> set (restricted_paths policy)\<rparr>"

definition removePolicy :: "DLPMonitor \<Rightarrow> string \<Rightarrow> DLPMonitor" where
  "removePolicy st policy_name = st\<lparr>policies := filter (\<lambda>p. name p \<noteq> policy_name) (policies st)\<rparr>"

definition setCallback :: "DLPMonitor \<Rightarrow> DLPMonitor" where
  "setCallback st = st\<lparr>callback := True\<rparr>"

definition emit :: "DLPMonitor \<Rightarrow> DLPEvent \<Rightarrow> DLPMonitor" where
  "emit st ev = st\<lparr>emitted := emitted st @ [ev]\<rparr>"

subsection \<open>The file match predicate\<close>

definition keyword_hit :: "string \<Rightarrow> bool" where
  "keyword_hit search_content =
     (string_find search_content ''confidential'' \<noteq> None
      \<or> string_find search_content ''secret'' \<noteq> None
      \<or> string_find search_content ''internal'' \<noteq> None
      \<or> string_find search_content ''password'' \<noteq> None
      \<or> string_find search_content ''api_key'' \<noteq> None
      \<or> string_find search_content ''token'' \<noteq> None)"

text \<open>
  The inner loop of \<open>checkContentAgainstPolicies\<close> over one policy's patterns. A
  \<open>regex_error\<close> is caught inside the loop body, which skips the keyword search for
  that pattern and goes on with the next one.
\<close>

fun patterns_loop :: "regex list \<Rightarrow> string \<Rightarrow> string \<Rightarrow> bool" where
  "patterns_loop [] content lower_content = False"
| "patterns_loop (pattern # rest) content lower_content =
     (case pattern content of
        Matched \<Rightarrow> True
      | RegexError \<Rightarrow> patterns_loop rest content lower_content
      | NotMatched \<Rightarrow>
          if keyword_hit lower_content then True
          else patterns_loop rest content lower_content)"

fun content_policies_loop :: "DLPPolicy list \<Rightarrow> string \<Rightarrow> string \<Rightarrow> bool" where
  "content_policies_loop [] content lower_content = False"
| "content_policies_loop (policy # rest) content lower_content =
     (if patterns_loop (content_patterns policy) content lower_content then True
      else content_policies_loop rest content lower_content)"

definition checkContentAgainstPolicies :: "dlp_env \<Rightarrow> DLPPolicy list \<Rightarrow> string \<Rightarrow> bool" where
  "checkContentAgainstPolicies env ps path =
     (case readable_files env path of
        None \<Rightarrow> False
      | Some content \<Rightarrow>
          if content = [] then False
          else content_policies_loop ps content (map tolower content))"

fun extensions_loop :: "string list \<Rightarrow> string \<Rightarrow> bool" where
  "extensions_loop [] path = False"
| "extensions_loop (ext # rest) path =
     (if string_find path ext \<noteq> None then True else extensions_loop rest path)"

fun paths_loop :: "string list \<Rightarrow> string \<Rightarrow> bool" where
  "paths_loop [] path = False"
| "paths_loop (p # rest) path =
     (if string_find path p = Some 0 then True else paths_loop rest path)"

text \<open>
  The loop of \<open>checkFileAgainstPolicies\<close>. The content check inside it looks at the
  patterns of all policies (\<open>all\<close>), whichever policy the loop is at.
\<close>

fun file_policies_loop :: "dlp_env \<Rightarrow> DLPPolicy list \<Rightarrow> DLPPolicy list \<Rightarrow> string \<Rightarrow> bool" where
  "file_policies_loop env all [] path = False"
| "file_policies_loop env all (policy # rest) path =
     (if extensions_loop (file_extensions policy) path then True
      else if paths_loop (restricted_paths policy) path then True
      else if checkContentAgainstPolicies env all path then True
      else file_policies_loop env all rest path)"

definition checkFileAgainstPolicies :: "dlp_env \<Rightarrow> DLPPolicy list \<Rightarrow> string \<Rightarrow> bool" where
  "checkFileAgainstPolicies env ps path = file_policies_loop env ps ps path"

subsection \<open>The polling fallback of the network watch\<close>

definition suspicious_ports :: "int list" where
  "suspicious_ports = [21, 22, 25, 110, 143, 993, 995]"

fun port_policies_loop :: "dlp_env \<Rightarrow> DLPPolicy list \<Rightarrow> int \<Rightarrow> DLPMonitor \<Rightarrow> DLPMonitor" where
  "port_policies_loop env [] port st = st"
| "port_policies_loop env (policy # rest) port st =
     port_policies_loop env rest port
       (if block_transfer policy \<and> callback st then
          emit st
            \<lparr>event_timestamp = local_time env,
             event_type = ''suspicious_port'',
             file_path = ''Network connection'',
             destination = ''localhost:'' @ int_to_string port,
             event_user = ''current_user'',
             policy_violated = ''Connection to suspicious port: '' @ int_to_string port,
             blocked = False\<rparr>
        else st)"

definition checkPortAgainstPolicies :: "dlp_env \<Rightarrow> DLPMonitor \<Rightarrow> int \<Rightarrow> DLPMonitor" where
  "checkPortAgainstPolicies env st port =
     (if port \<in> set suspicious_ports then port_policies_loop env (policies st) port st else st)"

text \<open>
  \<open>checkDestinationAgainstPolicies\<close>: for each policy, the first restricted
  destination that occurs in the destination string emits one event and ends the
  inner loop.
\<close>

fun destinations_loop :: "dlp_env \<Rightarrow> DLPPolicy \<Rightarrow> string list \<Rightarrow> string \<Rightarrow> DLPMonitor \<Rightarrow> DLPMonitor" where
  "destinations_loop env policy [] dest st = st"
| "destinations_loop env policy (restricted_dest # rest) dest st =
     (if string_find dest restricted_dest \<noteq> None then
        (if callback st then
           emit st
             \<lparr>event_timestamp = local_time env,
              event_type = ''restricted_destination'',
              file_path = ''Network transfer'',
              destination = dest,
              event_user = ''current_user'',
              policy_violated = ''Transfer to restricted destination: '' @ dest,
              blocked = block_transfer policy\<rparr>
         else st)
      else destinations_loop env policy rest dest st)"

fun destination_policies_loop :: "dlp_env \<Rightarrow> DLPPolicy list \<Rightarrow> string \<Rightarrow> DLPMonitor \<Rightarrow> DLPMonitor" where
  "destination_policies_loop env [] dest st = st"
| "destination_policies_loop env (policy # rest) dest st =
     destination_policies_loop env rest dest
       (destinations_loop env policy (restricted_paths policy) dest st)"

definition checkDestinationAgainstPolicies :: "dlp_env \<Rightarrow> DLPMonitor \<Rightarrow> string \<Rightarrow> DLPMonitor" where
  "checkDestinationAgainstPolicies env st dest =
     destination_policies_loop env (policies st) dest st"


text \<open>
  \<open>monitorNetworkConnections\<close>: each chunk that mentions \<open>tcp\<close> or \<open>udp\<close> is cut
  after its last colon and at the next space, and the rest is read as a decimal
  port; the handler around \<open>std::stoi\<close> skips a chunk that holds no number.
\<close>

definition find_last_of_colon :: "string \<Rightarrow> nat option" where
  "find_last_of_colon line =
     (case string_find (rev line) '':'' of
        None \<Rightarrow> None
      | Some i \<Rightarrow> Some (length line - 1 - i))"

definition port_string :: "string \<Rightarrow> string option" where
  "port_string line =
     (case find_last_of_colon line of
        None \<Rightarrow> None
      | Some colon_pos \<Rightarrow>
          let port_str = drop (colon_pos + 1) line in
          (case string_find port_str '' '' of
             None \<Rightarrow> Some port_str
           | Some space_pos \<Rightarrow> Some (take space_pos port_str)))"

fun connections_loop :: "dlp_env \<Rightarrow> string list \<Rightarrow> DLPMonitor \<Rightarrow> DLPMonitor" where
  "connections_loop env [] st = st"
| "connections_loop env (line # rest) st =
     connections_loop env rest
       (if string_find line ''tcp'' \<noteq> None \<or> string_find line ''udp'' \<noteq> None then
          (case port_string line of
             None \<Rightarrow> st
           | Some port_str \<Rightarrow>
               (case stoi 10 port_str of
                  Value port \<Rightarrow> checkPortAgainstPolicies env st port
                | _ \<Rightarrow> st))
        else st)"

definition monitorNetworkConnections :: "dlp_env \<Rightarrow> DLPMonitor \<Rightarrow> DLPMonitor" where
  "monitorNetworkConnections env st =
     (case ss_output env of None \<Rightarrow> st | Some chunks \<Rightarrow> connections_loop env chunks st)"

text \<open>\<open>monitorSuspiciousProcesses\<close>.\<close>

definition suspicious_commands :: "string list" where
  "suspicious_commands =
     [''scp'', ''rsync'', ''ftp'', ''sftp'', ''wget'', ''curl'', ''nc'', ''netcat'', ''ssh'']"

definition rtrim :: "string \<Rightarrow> string" where
  "rtrim s = rev (dropWhile (\<lambda>c. of_char c \<in> {32, 10, 13, 9::nat}) (rev s))"

fun process_policies_loop :: "dlp_env \<Rightarrow> DLPPolicy list \<Rightarrow> string \<Rightarrow> DLPMonitor \<Rightarrow> DLPMonitor" where
  "process_policies_loop env [] cmd st = st"
| "process_policies_loop env (policy # rest) cmd st =
     process_policies_loop env rest cmd
       (if block_transfer policy \<and> callback st then
          emit st
            \<lparr>event_timestamp = local_time env,
             event_type = ''suspicious_process'',
             file_path = cmd,
             destination = ''network'',
             event_user = ''current_user'',
             policy_violated = ''Suspicious network process detected: '' @ cmd,
             blocked = False\<rparr>
        else st)"

fun commands_loop :: "dlp_env \<Rightarrow> string list \<Rightarrow> DLPMonitor \<Rightarrow> DLPMonitor" where
  "commands_loop env [] st = st"
| "commands_loop env (cmd # rest) st =
     commands_loop env rest
       (case pgrep_first_line env cmd of
          None \<Rightarrow> st
        | Some buffer \<Rightarrow>
            (case ps_first_line env (rtrim buffer) of
               None \<Rightarrow> st
             | Some process_info \<Rightarrow> process_policies_loop env (policies st) cmd st))"

definition monitorSuspiciousProcesses :: "dlp_env \<Rightarrow> DLPMonitor \<Rightarrow> DLPMonitor" where
  "monitorSuspiciousProcesses env st = commands_loop env suspicious_commands st"

text \<open>
  \<open>hexToIp\<close>: \<open>None\<close> when \<open>std::stoi\<close> throws, which nothing up to the thread's
  entry function catches. The four bytes are read from the last pair of digits to
  the first.
\<close>

definition hex_pair :: "string \<Rightarrow> nat \<Rightarrow> string option" where
  "hex_pair ip_hex i =
     (case stoi 16 (take 2 (drop i ip_hex)) of
        Value byte_val \<Rightarrow> Some (int_to_string byte_val)
      | _ \<Rightarrow> None)"

definition hexToIp :: "string \<Rightarrow> string option" where
  "hexToIp hex_addr =
     (case string_find hex_addr '':'' of
        None \<Rightarrow> Some hex_addr
      | Some colon_pos \<Rightarrow>
          let ip_hex = take colon_pos hex_addr in
          if length ip_hex = 8 then
            (case (hex_pair ip_hex 6, hex_pair ip_hex 4, hex_pair ip_hex 2, hex_pair ip_hex 0) of
               (Some b6, Some b4, Some b2, Some b0) \<Rightarrow>
                 Some (b6 @ ''.'' @ b4 @ ''.'' @ b2 @ ''.'' @ b0)
             | _ \<Rightarrow> None)
          else Some hex_addr)"

text \<open>
  \<open>monitorFileTransfers\<close>: the first line of \<open>/proc/net/tcp\<close> is the header; every
  other line is split at single spaces, empty tokens dropped; a line with at least
  eight fields whose fourth is \<open>01\<close> (established) has its remote address checked.
\<close>

fun split_spaces :: "string \<Rightarrow> string \<Rightarrow> string list" where
  "split_spaces [] token = (if token = [] then [] else [token])"
| "split_spaces (c # cs) token =
     (if c = CHR '' '' then (if token = [] then split_spaces cs [] else token # split_spaces cs [])
      else split_spaces cs (token @ [c]))"

fun transfers_loop :: "dlp_env \<Rightarrow> string list \<Rightarrow> DLPMonitor \<Rightarrow> DLPMonitor option" where
  "transfers_loop env [] st = Some st"
| "transfers_loop env (line # rest) st =
     (let fields = split_spaces line [] in
      if 8 \<le> length fields \<and> fields ! 3 = ''01'' then
        (case hexToIp (fields ! 2) of
           None \<Rightarrow> None
         | Some readable_remote \<Rightarrow>
             transfers_loop env rest (checkDestinationAgainstPolicies env st readable_remote))
      else transfers_loop env rest st)"

definition monitorFileTransfers :: "dlp_env \<Rightarrow> DLPMonitor \<Rightarrow> DLPMonitor option" where
  "monitorFileTransfers env st =
     (case proc_net_tcp env of
        None \<Rightarrow> Some st
      | Some file_lines \<Rightarrow> transfers_loop env (tl file_lines) st)"

text \<open>
  One round of \<open>fallbackNetworkMonitoring\<close>, and the loop for as many rounds as run
  while \<open>running_\<close> is set, each with what it meets. \<open>None\<close>: an exception ended
  the thread.
\<close>

definition fallback_round :: "dlp_env \<Rightarrow> DLPMonitor \<Rightarrow> DLPMonitor option" where
  "fallback_round env st =
     monitorFileTransfers env (monitorSuspiciousProcesses env (monitorNetworkConnections env st))"

fun fallbackNetworkMonitoring :: "dlp_env list \<Rightarrow> DLPMonitor \<Rightarrow> DLPMonitor option" where
  "fallbackNetworkMonitoring [] st = Some st"
| "fallbackNetworkMonitoring (env # envs) st =
     (case fallback_round env st of
        None \<Rightarrow> None
      | Some st1 \<Rightarrow> fallbackNetworkMonitoring envs st1)"


section \<open>The specification's formula and concrete inputs for the risk engine\<close>

text \<open>
  The confidence score in the specification's words: the weighted count of
  suspicious and anomalous patterns among the user's last 10 recorded patterns,
  divided by the number of patterns considered, clamped to 1.
\<close>

definition last_10 :: "'a list \<Rightarrow> 'a list" where
  "last_10 ps = drop (length ps - 10) ps"

definition spec_confidence :: "BehaviorPattern list \<Rightarrow> real" where
  "spec_confidence ps =
     (let considered = last_10 ps;
          suspicious_count = length (filter (\<lambda>p. pattern_type p = ''suspicious'') considered);
          anomalous_count = length (filter (\<lambda>p. pattern_type p = ''anomalous'') considered);
          total_considered = length considered
      in min ((real suspicious_count * 0.8 + real anomalous_count * 0.4) / real total_considered) 1)"

text \<open>The invariant of the data model: every stored risk score lies in \<open>[0, 1]\<close>.\<close>

definition risk_scores_in_range :: "BehaviorAnalyzer \<Rightarrow> bool" where
  "risk_scores_in_range st =
     (\<forall>u p. user_profiles st u = Some p \<longrightarrow> 0 \<le> risk_score p \<and> risk_score p \<le> 1)"

text \<open>A stand-in for \<open>std::to_string\<close> where a closed term is needed.\<close>

definition plain_to_string :: "real \<Rightarrow> string" where
  "plain_to_string r = ''?''"

text \<open>
  An insight as \<open>parseLLMResponse\<close> builds it from a response whose
  \<open>risk_level\<close> is \<open>critical\<close>, with the confidence the response reports.
\<close>

definition alert_insight :: "real \<Rightarrow> LLMBehaviorInsight" where
  "alert_insight c =
     \<lparr>insight_user = ''alice'', insight_type = ''alert'', severity = ''critical'',
      insight_confidence_score = c, insight_description = ''Detected patterns: bulk copy'',
      analysis = ''Analysis completed'', recommendations = [], insight_timestamp = 1\<rparr>"

text \<open>One native observation of \<open>alice\<close>, then eleven alert insights about her.\<close>

definition twelve_calls :: "analyzer_call list" where
  "twelve_calls = Activity 0 ''alice'' ''login'' [] # replicate 11 (Insight (alert_insight 0.9))"

text \<open>The analyzer after one native observation of \<open>alice\<close>.\<close>

definition seeded_analyzer :: BehaviorAnalyzer where
  "seeded_analyzer =
     analyzeActivity plain_to_string 0 new_BehaviorAnalyzer ''alice'' ''login'' []"

text \<open>An analyzer whose global history already holds 1000 patterns.\<close>

definition filler_pattern :: BehaviorPattern where
  "filler_pattern =
     \<lparr>user = ''bob'', pattern_type = ''normal'', confidence_score = 0,
      description = ''Normal activity: login'', timestamp = 0\<rparr>"

definition full_analyzer :: BehaviorAnalyzer where
  "full_analyzer = new_BehaviorAnalyzer\<lparr>pattern_history := replicate 1000 filler_pattern\<rparr>"


section \<open>Concrete inputs for the insight pipeline and the upgrade subsystem\<close>

text \<open>
  A stand-in for \<open>json::parse\<close> where a closed term is needed: it knows one version
  descriptor and rejects every other text.
\<close>

definition descriptor_text :: string where
  \<open>descriptor_text =
     ''{"major":1,"minor":0,"patch":1,"download_url":"http://localhost:5000/download/1.0.1","checksum":"e3b0"}''\<close>

definition descriptor_json :: json where
  "descriptor_json =
     JObject [(''checksum'', JString ''e3b0''),
              (''download_url'', JString ''http://localhost:5000/download/1.0.1''),
              (''major'', JInt 1), (''minor'', JInt 0), (''patch'', JInt 1)]"

definition tiny_json_parse :: "string \<Rightarrow> string + json" where
  "tiny_json_parse s = (if s = descriptor_text then Inr descriptor_json else Inl ''syntax error'')"

text \<open>
  A response whose JSON body reports a confidence of 2, as the parser delivers it:
  \<open>{"confidence_score": 2, "risk_level": "low"}\<close>.
\<close>

definition overconfident_json :: json where
  "overconfident_json = JObject [(''confidence_score'', JInt 2), (''risk_level'', JString ''low'')]"

definition overconfident_parse :: "string \<Rightarrow> string + json" where
  "overconfident_parse s = Inr overconfident_json"

text \<open>
  A world in which the update server answers \<open>/latest\<close> with the descriptor of
  version 1.0.1, the running executable is \<open>/opt/agent/workforce_agent\<close>, copies
  and permission changes succeed, and \<open>tar\<close> fails with exit status 2 leaving the
  disk as it is. Its digest function is a placeholder: none of the functions run in
  this world below computes a digest.
\<close>

definition demo_env :: upgrade_env where
  "demo_env =
     \<lparr>curl_init_ok = True,
      fopen_ok = (\<lambda>p. True),
      http_get = (\<lambda>url. if url = ''http://localhost:5000/latest'' then CURLE_OK descriptor_text
                         else CURLE_failed CURLE_COULDNT_CONNECT),
      json_parser = tiny_json_parse,
      sha256 = (\<lambda>data. []),
      readlink_exe = Some ''/opt/agent/workforce_agent'',
      os_refuses_copy = (\<lambda>src dst. False),
      os_refuses_chmod = (\<lambda>p. False),
      tar_xzf = (\<lambda>d archive_path extract_path. (2, d)),
      directory_entries = (\<lambda>d p. Some [])\<rparr>"


definition demo_disk :: filesystem where
  "demo_disk = [''/opt/agent/workforce_agent'' \<mapsto> ''old binary'']"

text \<open>
  A manager as constructed, with a callback registered; the uninitialised numbers
  of \<open>available_update_\<close> happen to be 7, 3, 9 and 4096.
\<close>

definition demo_manager :: UpgradeManager where
  "demo_manager = setUpdateAvailableCallback (new_UpgradeManager demo_disk 7 3 9 4096)"

text \<open>
  What an invocation meets when the remote descriptor reports a version: the request to
  \<open>{server}/latest\<close> succeeds with a non-empty body that parses as JSON, the
  descriptor reports the version \<open>v\<close>, and it is complete, that is,
  \<open>download_url\<close> and \<open>checksum\<close> are strings and the optional members
  \<open>release_notes\<close>, \<open>file_size\<close> and \<open>signature\<close> have their types when present.
\<close>

definition descriptor_complete :: "json \<Rightarrow> bool" where
  "descriptor_complete j =
     (\<not> isl (json_member_string j ''download_url'')
      \<and> \<not> isl (json_member_string j ''checksum'')
      \<and> \<not> isl (json_value json_get_string j ''release_notes'' [])
      \<and> \<not> isl (json_value json_get_int j ''file_size'' 0)
      \<and> \<not> isl (json_value json_get_string j ''signature'' []))"

definition remote_reports :: "upgrade_env \<Rightarrow> string \<Rightarrow> VersionInfo \<Rightarrow> bool" where
  "remote_reports env server_url v =
     (curl_init_ok env \<and> fopen_ok env ''/dev/null''
      \<and> (case http_get env (server_url @ ''/latest'') of
            CURLE_failed res \<Rightarrow> False
          | CURLE_OK body \<Rightarrow>
              body \<noteq> []
              \<and> (case json_parser env body of
                    Inl w \<Rightarrow> False
                  | Inr j \<Rightarrow> read_version j = Inr v \<and> descriptor_complete j)))"

definition version_101 :: VersionInfo where
  "version_101 = \<lparr>major = 1, minor = 0, patch = 1, build = [], release_date = []\<rparr>"





section \<open>The specification's match predicate and concrete inputs for the DLP engine\<close>

text \<open>
  The file match predicate in the specification's words: a policy matches a path by
  (a) the filename extension of the path being in its extension set, (b) one of its
  restricted paths being a prefix of the path, or (c) the readable content of the
  file matching one of its content patterns. The filename extension is the part of
  the last path component from its last dot on.
\<close>

definition filename_extension :: "string \<Rightarrow> string" where
  "filename_extension path =
     (let f = path_filename path in
      if CHR ''.'' \<in> set f then CHR ''.'' # rev (takeWhile (\<lambda>c. c \<noteq> CHR ''.'') (rev f))
      else [])"

definition policy_matches_file :: "dlp_env \<Rightarrow> DLPPolicy \<Rightarrow> string \<Rightarrow> bool" where
  "policy_matches_file env policy path =
     (filename_extension path \<in> set (file_extensions policy)
      \<or> (\<exists>p \<in> set (restricted_paths policy). prefix p path)
      \<or> (case readable_files env path of
            None \<Rightarrow> False
          | Some content \<Rightarrow> \<exists>pattern \<in> set (content_patterns policy). pattern content = Matched))"

definition spec_file_match :: "dlp_env \<Rightarrow> DLPPolicy list \<Rightarrow> string \<Rightarrow> bool" where
  "spec_file_match env ps path = (\<exists>policy \<in> set ps. policy_matches_file env policy path)"

text \<open>
  The content condition as the code decides it: the file can be read, it is not
  empty, and some content pattern of some policy matches it, or does not match it
  while the lower-cased content holds one of the six fixed keywords.
\<close>

definition content_matches :: "dlp_env \<Rightarrow> DLPPolicy list \<Rightarrow> string \<Rightarrow> bool" where
  "content_matches env ps path =
     (case readable_files env path of
        None \<Rightarrow> False
      | Some content \<Rightarrow>
          content \<noteq> []
          \<and> (\<exists>policy \<in> set ps. \<exists>pattern \<in> set (content_patterns policy).
                pattern content = Matched
                \<or> (pattern content = NotMatched \<and> keyword_hit (map tolower content))))"

text \<open>A pattern that matches the contents in which \<open>SSN\<close> occurs.\<close>

definition ssn_regex :: regex where
  "ssn_regex content = (if string_find content ''SSN'' \<noteq> None then Matched else NotMatched)"

definition pii_policy :: DLPPolicy where
  "pii_policy =
     \<lparr>name = ''pii'', file_extensions = [''.pdf''], content_patterns = [ssn_regex],
      restricted_paths = [''/secure''], block_transfer = True\<rparr>"

text \<open>
  A machine with one readable file, one established connection to 10.0.0.5:443 in
  \<open>/proc/net/tcp\<close>, no listening socket reported and none of the watched commands
  running.
\<close>

definition polling_env :: dlp_env where
  "polling_env =
     \<lparr>readable_files = [''/home/bob/notes.md'' \<mapsto> ''My Password is hunter2''],
      local_time = ''2025-01-06 12:00:00'',
      pgrep_first_line = (\<lambda>cmd. None),
      ps_first_line = (\<lambda>pid. None),
      ss_output = Some [],
      proc_net_tcp = Some
        [''  sl  local_address rem_address   st tx_queue rx_queue tr tm->when retrnsmt   uid  timeout inode'',
         ''   0: 0100007F:1F90 0500000A:01BB 01 00000000:00000000 00:00000000 00000000  1000        0 12345 1 0000000000000000 100 0 0 10 0'']\<rparr>"

definition exfil_policy :: DLPPolicy where
  "exfil_policy =
     \<lparr>name = ''exfil'', file_extensions = [], content_patterns = [],
      restricted_paths = [''10.0.0.5''], block_transfer = True\<rparr>"

definition polling_monitor :: DLPMonitor where
  "polling_monitor = setCallback (addPolicy new_DLPMonitor exfil_policy)"


section \<open>Properties of the behavioral risk engine\<close>

lemmas analyzer_defs =
  run_calls_def analyzeActivity_def handleLLMInsight_def detectAnomalies_def
  updateBaseline_def calculateRiskScore_def risk_of_patterns_def new_BehaviorAnalyzer_def
  push_history_def fire_anomaly_def insight_pattern_def activity_pattern_def
  alert_insight_def Let_def

lemma count_loop_nonneg:
  "count_loop ps (t, s, a) = (t', s', a') \<Longrightarrow> 0 \<le> t \<Longrightarrow> 0 \<le> s \<Longrightarrow> 0 \<le> a \<Longrightarrow> s + a \<le> t
   \<Longrightarrow> 0 \<le> s' \<and> 0 \<le> a' \<and> s' + a' \<le> t'"
  by (induction ps "(t, s, a)" arbitrary: t s a rule: count_loop.induct)
     (auto simp: Let_def split: if_splits)

lemma risk_of_patterns_range: "0 \<le> risk_of_patterns ps \<and> risk_of_patterns ps \<le> 1"
proof -
  obtain t s a where c: "count_loop ps (0, 0, 0) = (t, s, a)"
    by (cases "count_loop ps (0, 0, 0)")
  from count_loop_nonneg[OF c] have "0 \<le> s" "0 \<le> a" by auto
  then show ?thesis by (auto simp: risk_of_patterns_def c min_def)
qed

lemma calculateRiskScore_range: "0 \<le> calculateRiskScore st u \<and> calculateRiskScore st u \<le> 1"
  using risk_of_patterns_range by (auto simp: calculateRiskScore_def split: option.splits)

lemma fire_anomaly_profiles [simp]: "user_profiles (fire_anomaly st p) = user_profiles st"
  by (simp add: fire_anomaly_def)

lemma fire_anomaly_history [simp]: "pattern_history (fire_anomaly st p) = pattern_history st"
  by (simp add: fire_anomaly_def)

lemma detectAnomalies_id [simp]: "detectAnomalies st u m = st"
  by (simp add: detectAnomalies_def split: option.splits)

lemma updateBaseline_history [simp]: "pattern_history (updateBaseline st u m) = pattern_history st"
  by (simp add: updateBaseline_def split: option.splits)

lemma updateBaseline_creates: "user_profiles (updateBaseline st u m) u \<noteq> None"
  by (simp add: updateBaseline_def split: option.splits)

lemma updateBaseline_other: "v \<noteq> u \<Longrightarrow> user_profiles (updateBaseline st u m) v = user_profiles st v"
  by (simp add: updateBaseline_def split: option.splits)

lemma updateBaseline_patterns:
  "map_option recent_patterns (user_profiles (updateBaseline st u m) u) =
     Some (case user_profiles st u of None \<Rightarrow> [] | Some p \<Rightarrow> recent_patterns p)"
  by (simp add: updateBaseline_def split: option.splits)

text \<open>
  The native path keeps every risk score in range; with insights whose confidence is
  itself in \<open>[0, 1]\<close> the fusion path does too.
\<close>

lemma analyzeActivity_keeps_range:
  assumes "risk_scores_in_range st"
  shows "risk_scores_in_range (analyzeActivity ts now st u a m)"
  unfolding risk_scores_in_range_def
proof (intro allI impI)
  fix v p
  assume h: "user_profiles (analyzeActivity ts now st u a m) v = Some p"
  show "0 \<le> risk_score p \<and> risk_score p \<le> 1"
  proof (cases "v = u")
    case True
    with h have "risk_score p = calculateRiskScore (updateBaseline st u m) u"
      by (auto simp: analyzeActivity_def Let_def)
    then show ?thesis using calculateRiskScore_range by simp
  next
    case False
    with h have "user_profiles st v = Some p"
      by (auto simp: analyzeActivity_def Let_def updateBaseline_other)
    with assms show ?thesis by (auto simp: risk_scores_in_range_def)
  qed
qed

lemma handleLLMInsight_keeps_range:
  assumes "risk_scores_in_range st"
    and "0 \<le> insight_confidence_score i" and "insight_confidence_score i \<le> 1"
  shows "risk_scores_in_range (handleLLMInsight ts st i)"
  using assms
  by (auto simp: risk_scores_in_range_def handleLLMInsight_def Let_def
           split: option.splits if_splits)

lemma run_calls_keep_range:
  assumes "risk_scores_in_range st"
    and "\<forall>i. Insight i \<in> set calls \<longrightarrow> 0 \<le> insight_confidence_score i \<and> insight_confidence_score i \<le> 1"
  shows "risk_scores_in_range (run_calls ts st calls)"
  using assms
proof (induction calls arbitrary: st)
  case Nil
  then show ?case by (simp add: run_calls_def)
next
  case (Cons c calls)
  have "risk_scores_in_range (run_call ts st c)"
  proof (cases c)
    case (Activity now u a m)
    with Cons.prems(1) show ?thesis by (simp add: analyzeActivity_keeps_range)
  next
    case (Insight i)
    with Cons.prems show ?thesis by (simp add: handleLLMInsight_keeps_range)
  qed
  with Cons.IH[of "run_call ts st c"] Cons.prems(2) show ?case
    by (simp add: run_calls_def)
qed

lemmas parse_eval =
  parseLLMResponse_def parse_try_def empty_insight_def
  overconfident_parse_def overconfident_json_def

text \<open>
  Claim C4. After any sequence of \<open>analyzeActivity\<close> calls and insight fusions every
  profile's risk score should lie in \<open>[0, 1]\<close>. \<open>parseLLMResponse\<close> copies the
  \<open>confidence_score\<close> of the response into the insight as it is, and
  \<open>handleLLMInsight\<close> stores \<open>max(existing, insight.confidence_score)\<close> without
  the clamp that \<open>calculateRiskScore\<close> applies: one native observation followed by
  the insight parsed from a response that reports a confidence of 2 leaves the risk
  score 2.
\<close>

theorem C4_risk_score_leaves_unit_interval:
  "map_option risk_score
     (user_profiles
        (run_calls to_string new_BehaviorAnalyzer
           [Activity 0 ''alice'' ''login'' [],
            Insight (parseLLMResponse overconfident_parse 1 response ''alice'')]) ''alice'')
   = Some 2"
  by (simp add: analyzer_defs parse_eval)

text \<open>
  While a user has at most ten recorded patterns the code computes the
  specification's formula.
\<close>

lemma count_loop_short:
  "length ps + nat t \<le> 10 \<Longrightarrow> 0 \<le> t \<Longrightarrow> count_loop ps (t, s, a) =
     (t + int (length ps),
      s + int (length (filter (\<lambda>p. pattern_type p = ''suspicious'') ps)),
      a + int (length (filter (\<lambda>p. pattern_type p = ''anomalous'') ps)))"
  by (induction ps arbitrary: t s a) (auto simp: Let_def)

lemma risk_of_patterns_short: "length ps \<le> 10 \<Longrightarrow> risk_of_patterns ps = spec_confidence ps"
  using count_loop_short[of ps 0 0 0]
  by (cases ps) (auto simp: risk_of_patterns_def spec_confidence_def last_10_def Let_def)

text \<open>
  Claim C5. The confidence score should be computed over the user's last 10 recorded
  patterns, with a divisor of at most 10. The loop of \<open>calculateRiskScore\<close> starts at
  the oldest pattern and leaves its counter at 11 once there are more than ten: after
  one native observation (a normal pattern) and eleven alert insights the code
  counts the first ten patterns (nine suspicious) and divides by 11, giving
  \<open>7.2 / 11 = 36 / 55\<close>, where the last ten patterns are all suspicious and the
  specification's formula gives \<open>0.8\<close>. The next \<open>analyzeActivity\<close> records that
  \<open>36 / 55\<close> as the confidence of its pattern.
\<close>

theorem C5_confidence_uses_first_ten_and_divides_by_eleven:
  "calculateRiskScore (run_calls to_string new_BehaviorAnalyzer twelve_calls) ''alice'' = 36 / 55
   \<and> map_option (spec_confidence \<circ> recent_patterns)
        (user_profiles (run_calls to_string new_BehaviorAnalyzer twelve_calls) ''alice'')
      = Some (4 / 5)
   \<and> map_option (confidence_score \<circ> last \<circ> recent_patterns)
        (user_profiles
           (analyzeActivity to_string 13 (run_calls to_string new_BehaviorAnalyzer twelve_calls)
              ''alice'' ''login'' [])
           ''alice'')
      = Some (36 / 55)"
  by (simp add: analyzer_defs twelve_calls_def eval_nat_numeral spec_confidence_def last_10_def)

text \<open>
  The native path stores its pattern with the same two operations: the bounded push
  onto the global history and the append to the user's list, creating the profile
  when the user has none.
\<close>

lemma analyzeActivity_stores:
  "\<exists>pattern. user pattern = u
     \<and> pattern_history (analyzeActivity ts now st u a m)
         = push_history (pattern_history st) pattern
     \<and> map_option recent_patterns (user_profiles (analyzeActivity ts now st u a m) u)
         = Some ((case user_profiles st u of None \<Rightarrow> [] | Some p \<Rightarrow> recent_patterns p)
                 @ [pattern])"
proof -
  let ?st2 = "updateBaseline st u m"
  let ?pat = "activity_pattern ts now u a (calculateRiskScore ?st2 u)"
  have 1: "user ?pat = u" by (simp add: activity_pattern_def)
  have 2: "pattern_history (analyzeActivity ts now st u a m)
             = push_history (pattern_history st) ?pat"
    by (simp add: analyzeActivity_def Let_def)
  have 3: "map_option recent_patterns (user_profiles (analyzeActivity ts now st u a m) u)
             = Some ((case user_profiles st u of None \<Rightarrow> [] | Some p \<Rightarrow> recent_patterns p)
                     @ [?pat])"
    using updateBaseline_patterns[of st u m] updateBaseline_creates[of st u m]
    by (auto simp: analyzeActivity_def Let_def split: option.splits)
  from 1 2 3 show ?thesis by blast
qed

text \<open>
  Claim C7, as stated, fails for a user without a profile: the insight's pattern
  reaches the global history only, and no profile is created, where the native path
  creates the profile and records the pattern in it.
\<close>

theorem C7_no_profile_counterexample:
  "user_profiles (handleLLMInsight plain_to_string new_BehaviorAnalyzer (alert_insight 0.9))
     ''alice'' = None
   \<and> map_option recent_patterns
       (user_profiles
          (analyzeActivity plain_to_string 0 new_BehaviorAnalyzer ''alice'' ''login'' [])
          ''alice'')
     = Some [\<lparr>user = ''alice'', pattern_type = ''normal'', confidence_score = 0,
              description = ''Normal activity: login'', timestamp = 0\<rparr>]"
  by (simp add: analyzer_defs)

text \<open>
  What the bounded push does: it appends the pattern and, when the history already
  held 1000 patterns or more, drops the oldest one; a history within the cap stays
  within it and ends with the new pattern.
\<close>

lemma push_history_eq:
  "push_history h p = (if 1000 \<le> length h then tl h @ [p] else h @ [p])"
  by (cases h) (auto simp: push_history_def Let_def)

lemma push_history_cap:
  "length h \<le> 1000 \<Longrightarrow> length (push_history h p) \<le> 1000 \<and> last (push_history h p) = p"
  by (auto simp: push_history_eq)

text \<open>
  Claim C7, amended. For every arriving insight the pattern mapped from it (same
  user, confidence and time; suspicious for an alert or a critical or high severity,
  anomalous for a pattern insight or a medium severity, normal otherwise) is appended
  to the global history, the oldest pattern being dropped when the history already
  held 1000, which is what the native \<open>analyzeActivity\<close> path does with its own
  pattern. When the user already has a profile the pattern is appended to its
  recent-pattern list, as the native path appends, and the risk score becomes the
  maximum of the existing score and the insight's confidence. When the user has no
  profile the profiles are left as they were: no profile is created.
\<close>

theorem C7_handleLLMInsight_stores:
  "pattern_history (handleLLMInsight ts st i)
     = (if 1000 \<le> length (pattern_history st)
        then tl (pattern_history st) @ [insight_pattern ts i]
        else pattern_history st @ [insight_pattern ts i])
   \<and> pattern_history (analyzeActivity ts now st u a m)
     = (if 1000 \<le> length (pattern_history st)
        then tl (pattern_history st)
               @ [activity_pattern ts now u a (calculateRiskScore (updateBaseline st u m) u)]
        else pattern_history st
               @ [activity_pattern ts now u a (calculateRiskScore (updateBaseline st u m) u)])
   \<and> user (insight_pattern ts i) = insight_user i
   \<and> confidence_score (insight_pattern ts i) = insight_confidence_score i
   \<and> timestamp (insight_pattern ts i) = insight_timestamp i
   \<and> pattern_type (insight_pattern ts i)
       = (if insight_type i = ''alert'' \<or> severity i = ''critical'' \<or> severity i = ''high''
          then ''suspicious''
          else if insight_type i = ''pattern'' \<or> severity i = ''medium'' then ''anomalous''
          else ''normal'')
   \<and> (\<forall>p. user_profiles st (insight_user i) = Some p \<longrightarrow>
          user_profiles (handleLLMInsight ts st i)
            = (user_profiles st)(insight_user i \<mapsto>
                 p\<lparr>recent_patterns := recent_patterns p @ [insight_pattern ts i],
                   risk_score := max (risk_score p) (insight_confidence_score i)\<rparr>))
   \<and> (\<forall>p. user_profiles st u = Some p \<longrightarrow>
          map_option recent_patterns (user_profiles (analyzeActivity ts now st u a m) u)
            = Some (recent_patterns p
                    @ [activity_pattern ts now u a (calculateRiskScore (updateBaseline st u m) u)]))
   \<and> (user_profiles st (insight_user i) = None \<longrightarrow>
          user_profiles (handleLLMInsight ts st i) = user_profiles st)"
proof -
  have 1: "pattern_history (handleLLMInsight ts st i)
             = push_history (pattern_history st) (insight_pattern ts i)"
    by (simp add: handleLLMInsight_def Let_def split: option.splits)
  have 2: "pattern_history (analyzeActivity ts now st u a m)
             = push_history (pattern_history st)
                 (activity_pattern ts now u a (calculateRiskScore (updateBaseline st u m) u))"
    by (simp add: analyzeActivity_def Let_def)
  have 3: "user (insight_pattern ts i) = insight_user i
      \<and> confidence_score (insight_pattern ts i) = insight_confidence_score i
      \<and> timestamp (insight_pattern ts i) = insight_timestamp i
      \<and> pattern_type (insight_pattern ts i)
       = (if insight_type i = ''alert'' \<or> severity i = ''critical'' \<or> severity i = ''high''
          then ''suspicious''
          else if insight_type i = ''pattern'' \<or> severity i = ''medium'' then ''anomalous''
          else ''normal'')"
    by (simp add: insight_pattern_def)
  have 4: "\<forall>p. user_profiles st (insight_user i) = Some p \<longrightarrow>
          user_profiles (handleLLMInsight ts st i)
            = (user_profiles st)(insight_user i \<mapsto>
                 p\<lparr>recent_patterns := recent_patterns p @ [insight_pattern ts i],
                   risk_score := max (risk_score p) (insight_confidence_score i)\<rparr>)"
    by (simp add: handleLLMInsight_def Let_def)
  have 5: "\<forall>p. user_profiles st u = Some p \<longrightarrow>
          map_option recent_patterns (user_profiles (analyzeActivity ts now st u a m) u)
            = Some (recent_patterns p
                    @ [activity_pattern ts now u a (calculateRiskScore (updateBaseline st u m) u)])"
    using updateBaseline_patterns[of st u m] updateBaseline_creates[of st u m]
    by (auto simp: analyzeActivity_def Let_def split: option.splits)
  have 6: "user_profiles st (insight_user i) = None \<longrightarrow>
          user_profiles (handleLLMInsight ts st i) = user_profiles st"
    by (simp add: handleLLMInsight_def Let_def)
  from 1 2 3 4 5 6 show ?thesis unfolding push_history_eq by blast
qed

theorem C7_handleLLMInsight_stores_witness:
  "user_profiles new_BehaviorAnalyzer (insight_user (alert_insight 0.9)) = None
   \<and> user_profiles (handleLLMInsight plain_to_string new_BehaviorAnalyzer (alert_insight 0.9))
       = user_profiles new_BehaviorAnalyzer
   \<and> pattern_history (handleLLMInsight plain_to_string new_BehaviorAnalyzer (alert_insight 0.9))
       = [insight_pattern plain_to_string (alert_insight 0.9)]
   \<and> length (pattern_history full_analyzer) = 1000
   \<and> length (pattern_history (handleLLMInsight plain_to_string full_analyzer (alert_insight 0.9)))
       = 1000
   \<and> last (pattern_history (handleLLMInsight plain_to_string full_analyzer (alert_insight 0.9)))
       = insight_pattern plain_to_string (alert_insight 0.9)
   \<and> map_option risk_score (user_profiles seeded_analyzer (insight_user (alert_insight 0.9)))
       = Some 0
   \<and> map_option risk_score
        (user_profiles (handleLLMInsight plain_to_string seeded_analyzer (alert_insight 0.9))
           ''alice'')
       = Some 0.9
   \<and> map_option (length \<circ> recent_patterns)
        (user_profiles (handleLLMInsight plain_to_string seeded_analyzer (alert_insight 0.9))
           ''alice'')
       = Some 2"
proof -
  note t0 = C7_handleLLMInsight_stores
              [of plain_to_string new_BehaviorAnalyzer "alert_insight 0.9" 0 "''alice''" "''login''" "[]"]
  note t1 = C7_handleLLMInsight_stores
              [of plain_to_string full_analyzer "alert_insight 0.9" 0 "''alice''" "''login''" "[]"]
  note t2 = C7_handleLLMInsight_stores
              [of plain_to_string seeded_analyzer "alert_insight 0.9" 0 "''alice''" "''login''" "[]"]
  have a: "user_profiles new_BehaviorAnalyzer (insight_user (alert_insight 0.9)) = None"
    by (simp add: new_BehaviorAnalyzer_def)
  have h0: "pattern_history new_BehaviorAnalyzer = []"
    by (simp add: new_BehaviorAnalyzer_def)
  have hf: "pattern_history full_analyzer = replicate 1000 filler_pattern"
    by (simp add: full_analyzer_def)
  obtain p where p: "user_profiles seeded_analyzer (insight_user (alert_insight 0.9)) = Some p"
      and r: "risk_score p = 0" and l: "length (recent_patterns p) = 1"
    by (simp add: seeded_analyzer_def analyzer_defs)
  from t0 a have b: "user_profiles (handleLLMInsight plain_to_string new_BehaviorAnalyzer (alert_insight 0.9))
             = user_profiles new_BehaviorAnalyzer"
    by blast
  from t0 h0 have c0: "pattern_history (handleLLMInsight plain_to_string new_BehaviorAnalyzer (alert_insight 0.9))
             = [insight_pattern plain_to_string (alert_insight 0.9)]"
    by simp
  from t1 hf have c1: "pattern_history (handleLLMInsight plain_to_string full_analyzer (alert_insight 0.9))
             = tl (replicate 1000 filler_pattern) @ [insight_pattern plain_to_string (alert_insight 0.9)]"
    by simp
  from t2 p
  have c: "user_profiles (handleLLMInsight plain_to_string seeded_analyzer (alert_insight 0.9))
            = (user_profiles seeded_analyzer)(insight_user (alert_insight 0.9) \<mapsto>
                 p\<lparr>recent_patterns :=
                      recent_patterns p @ [insight_pattern plain_to_string (alert_insight 0.9)],
                   risk_score :=
                      max (risk_score p) (insight_confidence_score (alert_insight 0.9))\<rparr>)"
    by blast
  have u: "insight_user (alert_insight 0.9) = ''alice''"
    by (simp add: alert_insight_def)
  have f1: "length (pattern_history full_analyzer) = 1000" by (simp add: hf)
  have f2: "length (pattern_history (handleLLMInsight plain_to_string full_analyzer (alert_insight 0.9))) = 1000"
    by (simp add: c1)
  have f3: "last (pattern_history (handleLLMInsight plain_to_string full_analyzer (alert_insight 0.9)))
              = insight_pattern plain_to_string (alert_insight 0.9)"
    by (simp add: c1)
  show ?thesis using a b c0 f1 f2 f3 p r l unfolding c u by (simp add: alert_insight_def)
qed


section \<open>Properties of the upgrade subsystem\<close>

lemma updateStatus_fields [simp]:
  "update_available_callback (updateStatus st s m) = update_available_callback st"
  "update_available_calls (updateStatus st s m) = update_available_calls st"
  "current_version (updateStatus st s m) = current_version st"
  "disk (updateStatus st s m) = disk st"
  "temp_directory (updateStatus st s m) = temp_directory st"
  "backup_directory (updateStatus st s m) = backup_directory st"
  "backup_enabled (updateStatus st s m) = backup_enabled st"
  "available_update (updateStatus st s m) = available_update st"
  "status_log (updateStatus st s m) = status_log st @ [(s, m)]"
  "status_message (updateStatus st s m) = m"
  "status (updateStatus st s m) = s"
  by (simp_all add: updateStatus_def)
















lemma downloadFile_fields:
  "update_available_callback (snd (downloadFile env st url p)) = update_available_callback st"
  "update_available_calls (snd (downloadFile env st url p)) = update_available_calls st"
  "current_version (snd (downloadFile env st url p)) = current_version st"
  "status_log (snd (downloadFile env st url p)) = status_log st"
  "temp_directory (snd (downloadFile env st url p)) = temp_directory st"
  by (simp_all add: downloadFile_def Let_def split: curl_result.splits)

lemma store_update_fields:
  "store_update j v st = Inr st' \<Longrightarrow>
     update_available_callback st' = update_available_callback st
     \<and> update_available_calls st' = update_available_calls st
     \<and> current_version st' = current_version st
     \<and> update_server_url st' = update_server_url st"
  "store_update j v st = Inl (e, st') \<Longrightarrow>
     update_available_callback st' = update_available_callback st
     \<and> update_available_calls st' = update_available_calls st
     \<and> current_version st' = current_version st
     \<and> update_server_url st' = update_server_url st"
  by (auto simp: store_update_def Let_def split: sum.splits)

lemma check_version_info_calls:
  "check_version_info env st vi = Inr (r, st') \<Longrightarrow>
     update_available_callback st' = update_available_callback st
     \<and> current_version st' = current_version st
     \<and> update_available_calls st' =
         update_available_calls st
           @ (if r \<and> update_available_callback st then [available_update st'] else [])"
  "check_version_info env st vi = Inl (e, st') \<Longrightarrow>
     update_available_callback st' = update_available_callback st
     \<and> current_version st' = current_version st
     \<and> update_available_calls st' = update_available_calls st"
  by (auto simp: check_version_info_def fire_update_available_def Let_def
           split: sum.splits if_splits dest: store_update_fields)

text \<open>
  One invocation: the callback fires once when the invocation returns true and a
  callback is registered, and not at all otherwise; the local version and the
  registration are left as they were.
\<close>

lemma checkForUpdates_calls:
  assumes "checkForUpdates env st = (r, st')"
  shows "update_available_callback st' = update_available_callback st
     \<and> current_version st' = current_version st
     \<and> update_available_calls st' =
         update_available_calls st
           @ (if r \<and> update_available_callback st then [available_update st'] else [])"
proof -
  let ?st1 = "updateStatus st CHECKING ''Checking for updates...''"
  obtain vi st2 where g: "getLatestVersionInfo env ?st1 = (vi, st2)"
    by (cases "getLatestVersionInfo env ?st1")
  have f: "update_available_callback st2 = update_available_callback st"
    "update_available_calls st2 = update_available_calls st"
    "current_version st2 = current_version st"
    using g downloadFile_fields[of env ?st1]
    by (auto simp: getLatestVersionInfo_def dest!: arg_cong[where f=snd])
  show ?thesis
  proof (cases "vi = []")
    case True
    with assms g f show ?thesis by (auto simp: checkForUpdates_def Let_def)
  next
    case False
    show ?thesis
    proof (cases "check_version_info env st2 vi")
      case (Inl x)
      obtain e st3 where x: "x = (e, st3)" by (cases x)
      from check_version_info_calls(2)[of env st2 vi e st3] Inl x assms g f False
      show ?thesis by (auto simp: checkForUpdates_def Let_def)
    next
      case (Inr y)
      obtain r' st3 where y: "y = (r', st3)" by (cases y)
      from check_version_info_calls(1)[of env st2 vi r' st3] Inr y assms g f False
      show ?thesis by (auto simp: checkForUpdates_def Let_def)
    qed
  qed
qed

text \<open>
  An invocation returns true only when the version it has stored as available is
  newer than the local version.
\<close>

lemma store_update_version:
  "store_update j v st = Inr st' \<Longrightarrow> version (available_update st') = v"
  by (auto simp: store_update_def Let_def split: sum.splits)

lemma check_version_info_true:
  "check_version_info env st vi = Inr (True, st') \<Longrightarrow>
     version_greater (version (available_update st')) (current_version st)
     \<and> update_available st'"
  by (auto simp: check_version_info_def fire_update_available_def updateStatus_def Let_def
           split: sum.splits if_splits dest: store_update_version)

lemma checkForUpdates_true:
  assumes "checkForUpdates env st = (True, st')"
  shows "version_greater (version (available_update st')) (current_version st)
     \<and> update_available st'"
proof -
  let ?st1 = "updateStatus st CHECKING ''Checking for updates...''"
  obtain vi st2 where g: "getLatestVersionInfo env ?st1 = (vi, st2)"
    by (cases "getLatestVersionInfo env ?st1")
  have f: "current_version st2 = current_version st"
    using g downloadFile_fields(3)[of env ?st1]
    by (auto simp: getLatestVersionInfo_def dest!: arg_cong[where f=snd])
  from assms g have ne: "vi \<noteq> []"
    by (auto simp: checkForUpdates_def Let_def split: if_splits)
  from assms g ne have "check_version_info env st2 vi = Inr (True, st')"
    by (auto simp: checkForUpdates_def Let_def split: sum.splits prod.splits)
  from check_version_info_true[OF this] f show ?thesis by simp
qed

text \<open>
  Over a sequence of invocations the callback fires as many times as invocations
  returned true.
\<close>

lemma check_repeatedly_callback_count:
  "update_available_callback st \<Longrightarrow> check_repeatedly envs st = (rs, st') \<Longrightarrow>
     length (update_available_calls st')
       = length (update_available_calls st) + length (filter id rs)"
proof (induction envs arbitrary: st rs st')
  case Nil
  then show ?case by simp
next
  case (Cons env envs)
  obtain r st1 where c: "checkForUpdates env st = (r, st1)"
    by (cases "checkForUpdates env st")
  obtain rs1 st2 where d: "check_repeatedly envs st1 = (rs1, st2)"
    by (cases "check_repeatedly envs st1")
  from Cons.prems(2) c d have e: "rs = r # rs1" "st' = st2" by auto
  from checkForUpdates_calls[OF c] Cons.prems(1)
  have f: "update_available_callback st1"
    "length (update_available_calls st1)
       = length (update_available_calls st) + (if r then 1 else 0)"
    by auto
  from Cons.IH[OF f(1) d] f(2) e show ?case by auto
qed

text \<open>
  A complete descriptor is stored without an exception, and the stored version is
  the one it reports.
\<close>

lemma store_update_complete:
  "descriptor_complete j \<Longrightarrow> \<exists>st'. store_update j v st = Inr st'"
  by (auto simp: descriptor_complete_def store_update_def Let_def split: sum.splits)

text \<open>
  One invocation that meets a complete descriptor of a newer version: it returns
  true and appends one call of the callback, with the reported version, whatever
  the manager has stored or announced before.
\<close>

lemma checkForUpdates_reports:
  assumes r: "remote_reports env (update_server_url st) v"
    and g: "version_greater v (current_version st)"
  shows "\<exists>st'. checkForUpdates env st = (True, st')
     \<and> version (available_update st') = v
     \<and> update_available_calls st' =
         update_available_calls st
           @ (if update_available_callback st then [available_update st'] else [])
     \<and> update_available_callback st' = update_available_callback st
     \<and> current_version st' = current_version st
     \<and> update_server_url st' = update_server_url st"
proof -
  let ?st1 = "updateStatus st CHECKING ''Checking for updates...''"
  let ?st2 = "?st1\<lparr>disk := disk ?st1\<rparr>"
  from r have ci: "curl_init_ok env" and fo: "fopen_ok env ''/dev/null''"
    by (auto simp: remote_reports_def)
  from r obtain body where hb: "http_get env (update_server_url st @ ''/latest'') = CURLE_OK body"
    and ne: "body \<noteq> []"
    and rest: "(case json_parser env body of
                  Inl w \<Rightarrow> False
                | Inr j \<Rightarrow> read_version j = Inr v \<and> descriptor_complete j)"
    by (auto simp: remote_reports_def split: curl_result.splits)
  from rest obtain j where pj: "json_parser env body = Inr j"
    and rv: "read_version j = Inr v" and dc: "descriptor_complete j"
    by (auto split: sum.splits)
  have u1: "update_server_url ?st1 = update_server_url st" by (simp add: updateStatus_def)
  have gl: "getLatestVersionInfo env ?st1 = (body, ?st2)"
    using ci fo hb by (simp add: getLatestVersionInfo_def downloadFile_def fopen_wb_def u1 Let_def)
  have f2: "current_version ?st2 = current_version st"
    "update_available_callback ?st2 = update_available_callback st"
    "update_available_calls ?st2 = update_available_calls st"
    "update_server_url ?st2 = update_server_url st"
    by (simp_all add: updateStatus_def)
  from store_update_complete[OF dc] obtain st3 where su: "store_update j v ?st2 = Inr st3"
    by blast
  note f3 = store_update_fields(1)[OF su] store_update_version[OF su]
  let ?st4 = "updateStatus (st3\<lparr>update_available := True\<rparr>) IDLE
                (''Update available: '' @ toString v)"
  have cvi: "check_version_info env ?st2 body = Inr (True, fire_update_available ?st4)"
    using pj rv g su f2(1) by (simp add: check_version_info_def Let_def)
  have cfu: "checkForUpdates env st = (True, fire_update_available ?st4)"
    using gl cvi ne by (simp add: checkForUpdates_def Let_def)
  have "version (available_update (fire_update_available ?st4)) = v"
    using f3 by (simp add: fire_update_available_def updateStatus_def)
  moreover have "update_available_calls (fire_update_available ?st4) =
         update_available_calls st
           @ (if update_available_callback st
              then [available_update (fire_update_available ?st4)] else [])"
    using f3 f2 by (simp add: fire_update_available_def updateStatus_def)
  moreover have "update_available_callback (fire_update_available ?st4)
                   = update_available_callback st"
    "current_version (fire_update_available ?st4) = current_version st"
    "update_server_url (fire_update_available ?st4) = update_server_url st"
    using f3 f2 by (simp_all add: fire_update_available_def updateStatus_def)
  ultimately show ?thesis using cfu by blast
qed

text \<open>
  Claim C6, amended. Every invocation of \<open>checkForUpdates\<close>, manual or from the
  auto-update loop, that meets a complete remote descriptor reporting a version newer
  than the local one returns true and fires the registered update-available callback
  exactly once, whether or not an earlier invocation has already reported that
  version: a sequence of such invocations that all report the same newer version
  fires the callback once per invocation, each time with that version.
\<close>

theorem C6_callback_fires_on_every_report_of_the_newer_version:
  "update_available_callback st \<Longrightarrow> version_greater v (current_version st) \<Longrightarrow>
   \<forall>env \<in> set envs. remote_reports env (update_server_url st) v \<Longrightarrow>
     fst (check_repeatedly envs st) = replicate (length envs) True
     \<and> map version (update_available_calls (snd (check_repeatedly envs st)))
         = map version (update_available_calls st) @ replicate (length envs) v"
proof (induction envs arbitrary: st)
  case Nil
  then show ?case by simp
next
  case (Cons env envs)
  from Cons.prems(3) have r: "remote_reports env (update_server_url st) v" by simp
  from checkForUpdates_reports[OF r Cons.prems(2)] Cons.prems(1)
  obtain st1 where c: "checkForUpdates env st = (True, st1)"
    and v1: "version (available_update st1) = v"
    and c1: "update_available_calls st1 = update_available_calls st @ [available_update st1]"
    and cb: "update_available_callback st1"
    and cv: "current_version st1 = current_version st"
    and su: "update_server_url st1 = update_server_url st"
    by auto
  from Cons.prems(2) cv have g1: "version_greater v (current_version st1)" by simp
  from Cons.prems(3) su have r1: "\<forall>env \<in> set envs. remote_reports env (update_server_url st1) v"
    by simp
  obtain rs st2 where d: "check_repeatedly envs st1 = (rs, st2)"
    by (cases "check_repeatedly envs st1")
  from Cons.IH[OF cb g1 r1] d
  have ih: "rs = replicate (length envs) True"
    "map version (update_available_calls st2)
       = map version (update_available_calls st1) @ replicate (length envs) v"
    by simp_all
  from c d have e: "check_repeatedly (env # envs) st = (True # rs, st2)" by simp
  from ih c1 v1 show ?case unfolding e by simp
qed

lemma descriptor_text_nonempty [simp]: "descriptor_text \<noteq> []"
  by (simp add: descriptor_text_def)

lemmas check_eval =
  demo_env_def demo_manager_def demo_disk_def
  new_UpgradeManager_def setUpdateAvailableCallback_def CURRENT_VERSION_def
  checkForUpdates_def getLatestVersionInfo_def downloadFile_def fopen_wb_def
  check_version_info_def read_version_def store_update_def fire_update_available_def
  json_member_int_def json_member_string_def tiny_json_parse_def descriptor_json_def
  version_greater_def version_less_def to_int32_def
  updateStatus_def toString_def int_to_string_def nat_to_string.simps Let_def

text \<open>
  Claim C6, as stated, fails on the second invocation: the local version is 1.0.0,
  the server reports 1.0.1 both times, and the callback is invoked twice with that
  same version.
\<close>

theorem C6_two_checks_counterexample:
  "map (toString \<circ> version)
     (update_available_calls (snd (check_repeatedly [demo_env, demo_env] demo_manager)))
   = [''1.0.1'', ''1.0.1'']"
  by (simp add: check_eval)

theorem C6_callback_fires_on_every_report_of_the_newer_version_witness:
  "update_available_callback demo_manager
   \<and> version_greater version_101 (current_version demo_manager)
   \<and> remote_reports demo_env (update_server_url demo_manager) version_101
   \<and> fst (check_repeatedly [demo_env, demo_env, demo_env] demo_manager) = [True, True, True]
   \<and> map version
        (update_available_calls (snd (check_repeatedly [demo_env, demo_env, demo_env] demo_manager)))
       = [version_101, version_101, version_101]"
proof -
  have cb: "update_available_callback demo_manager"
    by (simp add: demo_manager_def setUpdateAvailableCallback_def new_UpgradeManager_def)
  have g: "version_greater version_101 (current_version demo_manager)"
    by (simp add: demo_manager_def setUpdateAvailableCallback_def new_UpgradeManager_def
          CURRENT_VERSION_def version_101_def version_greater_def version_less_def)
  have r: "remote_reports demo_env (update_server_url demo_manager) version_101"
    by (simp add: remote_reports_def descriptor_complete_def demo_env_def demo_manager_def
          setUpdateAvailableCallback_def new_UpgradeManager_def tiny_json_parse_def
          descriptor_json_def read_version_def json_member_int_def json_member_string_def
          to_int32_def version_101_def)
  have z: "update_available_calls demo_manager = []"
    by (simp add: demo_manager_def setUpdateAvailableCallback_def new_UpgradeManager_def)
  from r have a: "\<forall>env \<in> set [demo_env, demo_env, demo_env].
                    remote_reports env (update_server_url demo_manager) version_101"
    by simp
  from C6_callback_fires_on_every_report_of_the_newer_version[OF cb g a] z cb g r
  show ?thesis by (simp add: eval_nat_numeral)
qed


text \<open>
  What the checksum step sees. After a download that \<open>downloadFile\<close> reports as
  successful the file at the output path is empty, whatever was received, so the
  verification compares the descriptor's checksum with the digest of the empty
  input.
\<close>

lemma downloadFile_leaves_empty_file:
  assumes "downloadFile env st url p = (body, st')" and "body \<noteq> []" and "p \<noteq> ''/dev/null''"
  shows "disk st' p = Some []"
  using assms
  by (auto simp: downloadFile_def fopen_wb_def Let_def split: if_splits curl_result.splits)

lemma verification_ignores_download:
  assumes "downloadFile env st url p = (body, st')" and "body \<noteq> []" and "p \<noteq> ''/dev/null''"
  shows "verifyUpdateFile env (disk st') p cs = (cs = sha256_hex env [])"
  using downloadFile_leaves_empty_file[OF assms]
  by (auto simp: verifyUpdateFile_def calculateChecksum_def full_blocks.simps)

text \<open>
  The branch of \<open>downloadUpdate\<close> taken when \<open>verifyUpdateFile\<close> fails: it returns
  false, the file at the download path is gone, every other file is as it was after
  the download, and the only status updates are \<open>Downloading\<close> and \<open>Failed\<close>.
\<close>

lemma downloadUpdate_on_failed_verification:
  assumes d: "downloadFile env (updateStatus st DOWNLOADING ''Downloading update...'')
                (download_url u) (download_path_of st (version u)) = (body, st2)"
    and b: "body \<noteq> []"
    and v: "\<not> verifyUpdateFile env (disk st2) (download_path_of st (version u)) (checksum u)"
  shows "fst (downloadUpdate env st u) = False
     \<and> disk (snd (downloadUpdate env st u)) = (disk st2)(download_path_of st (version u) := None)
     \<and> status_log (snd (downloadUpdate env st u)) =
         status_log st @ [(DOWNLOADING, ''Downloading update...''),
                          (FAILED, ''Checksum verification failed'')]"
proof -
  have p: "download_path_of (updateStatus st DOWNLOADING ''Downloading update...'') (version u)
             = download_path_of st (version u)"
    by (simp add: download_path_of_def)
  have l: "status_log st2 = status_log st @ [(DOWNLOADING, ''Downloading update...'')]"
    using downloadFile_fields(4)[of env "updateStatus st DOWNLOADING ''Downloading update...''"
            "download_url u" "download_path_of st (version u)"] d
    by simp
  show ?thesis
    using d b v l by (simp add: downloadUpdate_def Let_def p fs_remove_def)
qed

text \<open>
  Claim C1. A descriptor whose checksum does not match the SHA-256 digest of the
  downloaded artifact should make \<open>downloadUpdate\<close> return false and delete the
  temporary file. The received bytes never reach the file that is hashed
  (\<open>downloadFile\<close> collects them in a string), and \<open>calculateChecksum\<close> hashes full
  8192-byte blocks only: for every digest function, a descriptor that carries the
  digest of the empty input is accepted with any non-empty artifact, here the 14
  bytes \<open>artifact bytes\<close>. \<open>downloadUpdate\<close> returns true and the empty temporary
  file stays on disk.
\<close>

theorem C1_digest_of_empty_input_accepts_any_artifact:
  "fst (downloadUpdate
          (env\<lparr>curl_init_ok := True, fopen_ok := (\<lambda>p. True),
               http_get := (\<lambda>url. CURLE_OK ''artifact bytes'')\<rparr>)
          st
          \<lparr>version = v, download_url = url, checksum = sha256_hex env [],
           release_notes = [], file_size = 14, signature = []\<rparr>)
   \<and> disk (snd (downloadUpdate
          (env\<lparr>curl_init_ok := True, fopen_ok := (\<lambda>p. True),
               http_get := (\<lambda>url. CURLE_OK ''artifact bytes'')\<rparr>)
          st
          \<lparr>version = v, download_url = url, checksum = sha256_hex env [],
           release_notes = [], file_size = 14, signature = []\<rparr>))
        (download_path_of st v) = Some []"
  by (simp add: downloadUpdate_def downloadFile_def fopen_wb_def verifyUpdateFile_def
        calculateChecksum_def sha256_hex_def full_blocks.simps download_path_of_def
        updateStatus_def Let_def)

text \<open>
  Claim C10. \<open>validateUpdateSignature\<close> is true exactly for the non-empty signature
  strings, whatever the file path and the files are; hence \<open>downloadUpdate\<close> does
  for a descriptor with any signature what it does for the same descriptor with no
  signature: its signature check rejects nothing.
\<close>

theorem C10_signature_check_accepts_every_nonempty_signature:
  "validateUpdateSignature d p sg = (sg \<noteq> [])
   \<and> downloadUpdate env st (u\<lparr>signature := sg\<rparr>) = downloadUpdate env st (u\<lparr>signature := []\<rparr>)"
  by (simp add: validateUpdateSignature_def downloadUpdate_def Let_def split: prod.splits)


section \<open>Properties of the insight pipeline\<close>

text \<open>
  Claim C9. For every response that the JSON parser rejects, \<open>parseLLMResponse\<close>
  returns an insight of severity \<open>medium\<close> and confidence 0.5 whose analysis is the
  raw response (with the fixed description, the type \<open>pattern\<close> and no
  recommendations). The function is total: no path leaves it with an exception.
\<close>

theorem C9_unparseable_response_is_wrapped:
  "json_parse response = Inl w \<Longrightarrow>
   parseLLMResponse json_parse now response uid =
     \<lparr>insight_user = uid, insight_type = ''pattern'', severity = ''medium'',
      insight_confidence_score = 0.5, insight_description = ''LLM analysis completed'',
      analysis = response, recommendations = [], insight_timestamp = now\<rparr>"
  by (simp add: parseLLMResponse_def parse_try_def empty_insight_def)

theorem C9_unparseable_response_is_wrapped_witness:
  "tiny_json_parse ''The user looks fine.'' = Inl ''syntax error''
   \<and> parseLLMResponse tiny_json_parse 7 ''The user looks fine.'' ''alice'' =
     \<lparr>insight_user = ''alice'', insight_type = ''pattern'', severity = ''medium'',
      insight_confidence_score = 0.5, insight_description = ''LLM analysis completed'',
      analysis = ''The user looks fine.'', recommendations = [], insight_timestamp = 7\<rparr>"
proof -
  have h: "tiny_json_parse ''The user looks fine.'' = Inl ''syntax error''"
    by (simp add: tiny_json_parse_def descriptor_text_def)
  from C9_unparseable_response_is_wrapped
         [of tiny_json_parse "''The user looks fine.''" "''syntax error''" 7 "''alice''"] h
  show ?thesis by simp
qed


section \<open>Properties of the DLP engine\<close>

subsection \<open>The file match predicate\<close>

lemma string_find_prefix: "string_find h n = Some 0 \<longleftrightarrow> prefix n h"
  by (cases h) (auto split: if_splits)

lemma string_find_suffix: "suffix n h \<Longrightarrow> string_find h n \<noteq> None"
proof (induction h)
  case Nil
  then show ?case by simp
next
  case (Cons c cs)
  show ?case
  proof (cases "prefix n (c # cs)")
    case True
    then show ?thesis by simp
  next
    case False
    then have "n \<noteq> c # cs" by auto
    with Cons.prems have "suffix n cs" by (simp add: suffix_Cons)
    with Cons.IH have "string_find cs n \<noteq> None" by simp
    with False show ?thesis by simp
  qed
qed

lemma rev_takeWhile_suffix: "suffix (rev (takeWhile P (rev xs))) xs"
proof -
  have "xs = rev (takeWhile P (rev xs) @ dropWhile P (rev xs))" by simp
  also have "\<dots> = rev (dropWhile P (rev xs)) @ rev (takeWhile P (rev xs))" by (rule rev_append)
  finally show ?thesis by (rule suffixI)
qed

lemma suffix_path_filename: "suffix (path_filename p) p"
  unfolding path_filename_def by (rule rev_takeWhile_suffix)

lemma suffix_filename_extension: "suffix (filename_extension p) p"
proof (cases "CHR ''.'' \<in> set (path_filename p)")
  case False
  then show ?thesis by (simp add: filename_extension_def)
next
  case True
  define f where "f = path_filename p"
  define t where "t = takeWhile (\<lambda>c. c \<noteq> CHR ''.'') (rev f)"
  define d where "d = dropWhile (\<lambda>c. c \<noteq> CHR ''.'') (rev f)"
  from True have "CHR ''.'' \<in> set (rev f)" by (simp add: f_def)
  then have ne: "d \<noteq> []" unfolding d_def by (simp add: dropWhile_eq_Nil_conv)
  from hd_dropWhile[of "\<lambda>c. c \<noteq> CHR ''.''" "rev f"] ne have "hd d = CHR ''.''"
    unfolding d_def by simp
  with ne obtain r where dr: "d = CHR ''.'' # r" by (cases d) auto
  have "f = rev (t @ d)" unfolding t_def d_def by simp
  also have "\<dots> = rev r @ (CHR ''.'' # rev t)" unfolding dr by simp
  finally have "suffix (CHR ''.'' # rev t) f" by (rule suffixI)
  moreover have "suffix f p" unfolding f_def by (rule suffix_path_filename)
  ultimately have "suffix (CHR ''.'' # rev t) p" by (rule suffix_order.trans)
  moreover have "filename_extension p = CHR ''.'' # rev t"
    using True by (simp add: filename_extension_def f_def t_def)
  ultimately show ?thesis by simp
qed

lemma extensions_loop_iff:
  "extensions_loop exts path \<longleftrightarrow> (\<exists>ext \<in> set exts. string_find path ext \<noteq> None)"
  by (induction exts) auto

lemma paths_loop_iff: "paths_loop ps path \<longleftrightarrow> (\<exists>p \<in> set ps. prefix p path)"
  by (induction ps) (auto simp: string_find_prefix)

lemma patterns_loop_iff:
  "patterns_loop pats content lc \<longleftrightarrow>
     (\<exists>pattern \<in> set pats. pattern content = Matched \<or> (pattern content = NotMatched \<and> keyword_hit lc))"
  by (induction pats) (auto split: regex_result.splits)

lemma content_policies_loop_iff:
  "content_policies_loop ps content lc \<longleftrightarrow>
     (\<exists>policy \<in> set ps. \<exists>pattern \<in> set (content_patterns policy).
        pattern content = Matched \<or> (pattern content = NotMatched \<and> keyword_hit lc))"
  by (induction ps) (auto simp: patterns_loop_iff)

lemma checkContent_iff: "checkContentAgainstPolicies env ps path \<longleftrightarrow> content_matches env ps path"
  by (auto simp: checkContentAgainstPolicies_def content_matches_def content_policies_loop_iff
           split: option.splits)

lemma file_policies_loop_iff:
  "file_policies_loop env all ps path \<longleftrightarrow>
     (\<exists>policy \<in> set ps.
        (\<exists>ext \<in> set (file_extensions policy). string_find path ext \<noteq> None)
        \<or> (\<exists>p \<in> set (restricted_paths policy). prefix p path))
     \<or> (ps \<noteq> [] \<and> content_matches env all path)"
  by (induction ps) (auto simp: extensions_loop_iff paths_loop_iff checkContent_iff)

lemma content_matches_nonempty: "content_matches env ps path \<Longrightarrow> ps \<noteq> []"
  by (auto simp: content_matches_def split: option.splits)



lemmas match_eval =
  polling_env_def pii_policy_def ssn_regex_def keyword_hit_def tolower_def
  content_matches_def filename_extension_def path_filename_def Let_def

text \<open>
  Claim C3, as stated, fails: the policy's only content pattern looks for \<open>SSN\<close>,
  the file \<open>/home/bob/notes.md\<close> holds \<open>My Password is hunter2\<close>, its extension is
  not \<open>.pdf\<close> and it is not under \<open>/secure\<close>; the code reports a match (the
  keyword \<open>password\<close>), the predicate of the claim does not.
\<close>

theorem C3_keyword_fallback_counterexample:
  "checkFileAgainstPolicies polling_env [pii_policy] ''/home/bob/notes.md''
   \<and> \<not> spec_file_match polling_env [pii_policy] ''/home/bob/notes.md''"
  by (simp add: checkFileAgainstPolicies_def checkContentAgainstPolicies_def match_eval
        spec_file_match_def policy_matches_file_def)

text \<open>
  Claim C3, amended. The predicate returns true when some policy has the path's
  filename extension in its extension set, or has a restricted path that is a prefix
  of the path, or when the file is readable and not empty and some content pattern
  of some policy matches its content or, not matching it, the lower-cased content
  holds one of the keywords \<open>confidential\<close>, \<open>secret\<close>, \<open>internal\<close>,
  \<open>password\<close>, \<open>api_key\<close>, \<open>token\<close>. It returns true only when some policy
  has an extension string that occurs in the path, or a restricted path that is a
  prefix of the path, or the content condition holds.
\<close>

theorem C3_file_match_characterisation:
  "(((\<exists>policy \<in> set ps.
        filename_extension path \<in> set (file_extensions policy)
        \<or> (\<exists>p \<in> set (restricted_paths policy). prefix p path))
     \<or> content_matches env ps path)
    \<longrightarrow> checkFileAgainstPolicies env ps path)
   \<and> (checkFileAgainstPolicies env ps path
    \<longrightarrow> ((\<exists>policy \<in> set ps.
           (\<exists>ext \<in> set (file_extensions policy). string_find path ext \<noteq> None)
           \<or> (\<exists>p \<in> set (restricted_paths policy). prefix p path))
         \<or> content_matches env ps path))"
proof (intro conjI impI)
  assume "(\<exists>policy \<in> set ps.
        filename_extension path \<in> set (file_extensions policy)
        \<or> (\<exists>p \<in> set (restricted_paths policy). prefix p path))
     \<or> content_matches env ps path"
  then show "checkFileAgainstPolicies env ps path"
  proof
    assume "\<exists>policy \<in> set ps.
        filename_extension path \<in> set (file_extensions policy)
        \<or> (\<exists>p \<in> set (restricted_paths policy). prefix p path)"
    then obtain policy where p: "policy \<in> set ps"
      and m: "filename_extension path \<in> set (file_extensions policy)
              \<or> (\<exists>p \<in> set (restricted_paths policy). prefix p path)" by blast
    from m have "(\<exists>ext \<in> set (file_extensions policy). string_find path ext \<noteq> None)
              \<or> (\<exists>p \<in> set (restricted_paths policy). prefix p path)"
    proof
      assume "filename_extension path \<in> set (file_extensions policy)"
      with string_find_suffix[OF suffix_filename_extension[of path]] show ?thesis by blast
    next
      assume "\<exists>p \<in> set (restricted_paths policy). prefix p path"
      then show ?thesis by simp
    qed
    with p show ?thesis
      unfolding checkFileAgainstPolicies_def file_policies_loop_iff by blast
  next
    assume c: "content_matches env ps path"
    with content_matches_nonempty[OF c] show ?thesis
      unfolding checkFileAgainstPolicies_def file_policies_loop_iff by simp
  qed
next
  assume "checkFileAgainstPolicies env ps path"
  then show "(\<exists>policy \<in> set ps.
           (\<exists>ext \<in> set (file_extensions policy). string_find path ext \<noteq> None)
           \<or> (\<exists>p \<in> set (restricted_paths policy). prefix p path))
         \<or> content_matches env ps path"
    unfolding checkFileAgainstPolicies_def file_policies_loop_iff by blast
qed


theorem C3_file_match_characterisation_witness:
  "filename_extension ''/data/report.pdf'' \<in> set (file_extensions pii_policy)
   \<and> checkFileAgainstPolicies polling_env [pii_policy] ''/data/report.pdf''
   \<and> content_matches polling_env [pii_policy] ''/home/bob/notes.md''
   \<and> checkFileAgainstPolicies polling_env [pii_policy] ''/home/bob/notes.md''
   \<and> \<not> checkFileAgainstPolicies polling_env [pii_policy] ''/home/bob/todo.txt''"
proof -
  have a: "filename_extension ''/data/report.pdf'' \<in> set (file_extensions pii_policy)"
    by (simp add: match_eval)
  have b: "content_matches polling_env [pii_policy] ''/home/bob/notes.md''"
    by (simp add: match_eval)
  have c: "\<not> ((\<exists>policy \<in> set [pii_policy].
           (\<exists>ext \<in> set (file_extensions policy). string_find ''/home/bob/todo.txt'' ext \<noteq> None)
           \<or> (\<exists>p \<in> set (restricted_paths policy). prefix p ''/home/bob/todo.txt''))
         \<or> content_matches polling_env [pii_policy] ''/home/bob/todo.txt'')"
    by (simp add: match_eval)
  from C3_file_match_characterisation[of "[pii_policy]" "''/data/report.pdf''" polling_env] a
  have 1: "checkFileAgainstPolicies polling_env [pii_policy] ''/data/report.pdf''" by simp
  from C3_file_match_characterisation[of "[pii_policy]" "''/home/bob/notes.md''" polling_env] b
  have 2: "checkFileAgainstPolicies polling_env [pii_policy] ''/home/bob/notes.md''" by simp
  from C3_file_match_characterisation[of "[pii_policy]" "''/home/bob/todo.txt''" polling_env] c
  have 3: "\<not> checkFileAgainstPolicies polling_env [pii_policy] ''/home/bob/todo.txt''" by blast
  from a b 1 2 3 show ?thesis by simp
qed


subsection \<open>The polling fallback\<close>

text \<open>
  The events for suspicious ports and suspicious processes never carry
  \<open>blocked = true\<close>.
\<close>


lemma port_policies_loop_events:
  "\<exists>evs. emitted (port_policies_loop env ps port st) = emitted st @ evs
       \<and> (\<forall>e \<in> set evs. event_type e = ''suspicious_port'' \<and> \<not> blocked e)"
proof (induction ps arbitrary: st)
  case Nil
  then show ?case by simp
next
  case (Cons policy ps)
  let ?st = "(if block_transfer policy \<and> callback st then
          emit st
            \<lparr>event_timestamp = local_time env,
             event_type = ''suspicious_port'',
             file_path = ''Network connection'',
             destination = ''localhost:'' @ int_to_string port,
             event_user = ''current_user'',
             policy_violated = ''Connection to suspicious port: '' @ int_to_string port,
             blocked = False\<rparr>
        else st)"
  from Cons.IH[of ?st] obtain evs where
    e: "emitted (port_policies_loop env ps port ?st) = emitted ?st @ evs"
    and f: "\<forall>e \<in> set evs. event_type e = ''suspicious_port'' \<and> \<not> blocked e" by blast
  show ?case
  proof (cases "block_transfer policy \<and> callback st")
    case True
    with e f show ?thesis by (auto simp: emit_def)
  next
    case False
    with e f show ?thesis by auto
  qed
qed

lemma process_policies_loop_events:
  "\<exists>evs. emitted (process_policies_loop env ps cmd st) = emitted st @ evs
       \<and> (\<forall>e \<in> set evs. event_type e = ''suspicious_process'' \<and> \<not> blocked e)"
proof (induction ps arbitrary: st)
  case Nil
  then show ?case by simp
next
  case (Cons policy ps)
  let ?st = "(if block_transfer policy \<and> callback st then
          emit st
            \<lparr>event_timestamp = local_time env,
             event_type = ''suspicious_process'',
             file_path = cmd,
             destination = ''network'',
             event_user = ''current_user'',
             policy_violated = ''Suspicious network process detected: '' @ cmd,
             blocked = False\<rparr>
        else st)"
  from Cons.IH[of ?st] obtain evs where
    e: "emitted (process_policies_loop env ps cmd ?st) = emitted ?st @ evs"
    and f: "\<forall>e \<in> set evs. event_type e = ''suspicious_process'' \<and> \<not> blocked e" by blast
  show ?case
  proof (cases "block_transfer policy \<and> callback st")
    case True
    with e f show ?thesis by (auto simp: emit_def)
  next
    case False
    with e f show ?thesis by auto
  qed
qed


lemmas fallback_eval =
  polling_env_def polling_monitor_def exfil_policy_def
  new_DLPMonitor_def addPolicy_def setCallback_def emit_def
  fallback_round_def monitorNetworkConnections_def monitorSuspiciousProcesses_def
  monitorFileTransfers_def suspicious_commands_def checkDestinationAgainstPolicies_def
  hexToIp_def hex_pair_def stoi_def digit_value_def digits_value_def isspace_def
  int_to_string_def nat_to_string.simps Let_def

text \<open>
  Claim C8. Every event of the polling fallback should have \<open>blocked = false\<close>.
  \<open>checkDestinationAgainstPolicies\<close> copies the policy's \<open>block_transfer\<close> flag
  into the event: with one policy that restricts \<open>10.0.0.5\<close> and has
  \<open>block_transfer\<close> set, and one established connection to that address in
  \<open>/proc/net/tcp\<close>, a round of the fallback emits a \<open>restricted_destination\<close>
  event with \<open>blocked = true\<close>.
\<close>

theorem C8_restricted_destination_event_is_blocking:
  "map_option emitted (fallback_round polling_env polling_monitor) =
     Some [\<lparr>event_timestamp = ''2025-01-06 12:00:00'',
            event_type = ''restricted_destination'',
            file_path = ''Network transfer'',
            destination = ''10.0.0.5'',
            event_user = ''current_user'',
            policy_violated = ''Transfer to restricted destination: 10.0.0.5'',
            blocked = True\<rparr>]"
  by (simp add: fallback_eval)

end
